theory Spec2Isabelle
  imports Main "HOL-Library.Multiset"
begin

section \<open>The quiz application App7.py: data model\<close>

text \<open>
  One row of the sheet \<open>questions_and_answers\<close>, with the column names that
  \<open>load_quiz_data\<close> assigns. A Python \<open>str\<close> is a \<open>string\<close>.
\<close>

record question_row =
  Question :: string
  Option_A :: string
  Option_B :: string
  Option_C :: string
  Option_D :: string
  Option_E :: string

text \<open>
  Python's module-level random generator, as the sequence of its raw draws: \<open>g k\<close> is the
  \<open>k\<close>-th integer it will produce. \<open>randbelow n\<close> reduces the next draw into \<open>range(n)\<close>
  and advances the generator.
\<close>

type_synonym rng = "nat \<Rightarrow> nat"

definition randbelow :: "nat \<Rightarrow> rng \<Rightarrow> nat \<times> rng" where
  "randbelow n g = (g 0 mod n, \<lambda>k. g (Suc k))"

text \<open>\<open>random.randint(a, b)\<close> is \<open>a + randbelow(b - a + 1)\<close>.\<close>

definition randint :: "nat \<Rightarrow> nat \<Rightarrow> rng \<Rightarrow> nat \<times> rng" where
  "randint a b g = (let (r, g') = randbelow (b - a + 1) g in (a + r, g'))"

text \<open>
  \<open>random.shuffle(x)\<close> of the standard library:
  \<^verbatim>\<open>for i in reversed(range(1, len(x))): j = randbelow(i + 1); x[i], x[j] = x[j], x[i]\<close>.
  The argument \<open>Suc i\<close> of the second equation is the loop variable \<open>i\<close> of the source.
\<close>

fun shuffle_loop :: "nat \<Rightarrow> 'a list \<Rightarrow> rng \<Rightarrow> 'a list \<times> rng" where
  "shuffle_loop 0 x g = (x, g)"
| "shuffle_loop (Suc i) x g =
     (let (j, g') = randbelow (Suc i + 1) g
      in shuffle_loop i (x[Suc i := x ! j, j := x ! Suc i]) g')"

definition shuffle :: "'a list \<Rightarrow> rng \<Rightarrow> 'a list \<times> rng" where
  "shuffle x g = shuffle_loop (length x - 1) x g"

subsection \<open>Rendering one question (lines 146 to 211)\<close>

definition please_select :: string where
  "please_select = ''--- Please Select ---''"

definition INVALID :: string where
  "INVALID = ''INVALID''"

text \<open>The dictionary \<open>original_options\<close> as the list of its items, in insertion order.\<close>

definition original_options :: "question_row \<Rightarrow> (string \<times> string) list" where
  "original_options row =
     [(''A'', Option_A row), (''B'', Option_B row), (''C'', Option_C row),
      (''D'', Option_D row), (''E'', Option_E row)]"

text \<open>
  \<open>chr(ord('A') + idx)\<close>. A \<open>char\<close> is a byte, so the model agrees with Python for
  \<open>idx < 191\<close>; the option lists of the program have five entries.
\<close>

definition display_label :: "nat \<Rightarrow> char" where
  "display_label idx = char_of (of_char CHR ''A'' + idx)"

definition display_string :: "nat \<Rightarrow> string \<Rightarrow> string" where
  "display_string idx option_text = display_label idx # ''. '' @ option_text"

text \<open>
  The loop of line 173 over \<open>enumerate(option_pairs)\<close>, with its two accumulators: the
  list \<open>display_options_with_placeholder\<close> and the dictionary
  \<open>current_question_option_mapping\<close>.
\<close>

fun display_loop ::
  "nat \<Rightarrow> (string \<times> string) list \<Rightarrow> string list \<times> (string \<rightharpoonup> string)
     \<Rightarrow> string list \<times> (string \<rightharpoonup> string)" where
  "display_loop idx [] acc = acc"
| "display_loop idx ((model_code, option_text) # ps) (opts, mapping) =
     (let ds = display_string idx option_text
      in display_loop (Suc idx) ps (opts @ [ds], mapping(ds \<mapsto> model_code)))"

definition display_options :: "(string \<times> string) list \<Rightarrow> string list \<times> (string \<rightharpoonup> string)" where
  "display_options option_pairs = display_loop 0 option_pairs ([please_select], Map.empty)"

text \<open>\<open>list.index\<close>: \<open>None\<close> stands for the \<open>ValueError\<close> of a value that is not in the list.\<close>

fun list_index :: "'a list \<Rightarrow> 'a \<Rightarrow> nat option" where
  "list_index [] v = None"
| "list_index (x # xs) v = (if x = v then Some 0 else map_option Suc (list_index xs v))"

text \<open>Lines 187 to 190: the index of the stored display string, 0 on \<open>ValueError\<close>.\<close>

definition current_selection_index :: "string list \<Rightarrow> string \<Rightarrow> nat" where
  "current_selection_index opts stored =
     (case list_index opts stored of Some k \<Rightarrow> k | None \<Rightarrow> 0)"

text \<open>
  \<open>st.radio(label, options, index=..., key=...)\<close> returns one element of \<open>options\<close>: the
  one the user picked in the browser (\<open>pick = Some j\<close>), or the one at \<open>index\<close> when the
  user has not touched the widget.
\<close>

definition radio :: "string list \<Rightarrow> nat \<Rightarrow> nat option \<Rightarrow> string" where
  "radio opts index pick =
     (case pick of
        Some j \<Rightarrow> if j < length opts then opts ! j else opts ! index
      | None \<Rightarrow> opts ! index)"

text \<open>
  What a run of the script does that is visible from outside: the Streamlit elements it
  emits, and its calls of the classifier (\<open>Predict\<close>, with the encoded feature row).
\<close>

datatype effect =
    Error string
  | Warning string
  | Info string
  | Success string
  | Markdown string
  | Radio nat "string list" nat
  | Image string string
  | Predict "(string \<times> nat) list"

text \<open>
  \<open>st.session_state\<close>. The three keys that lines 107 to 112 create when they are missing
  are always present afterwards; a key that can be absent is an \<open>option\<close>. The keys
  \<open>f"q_{i}"\<close> and \<open>f"q_{i}_mapping"\<close> are in bijection with the positions \<open>i\<close>, which
  the model uses as keys.
\<close>

record session =
  quiz_selections_display :: "nat \<rightharpoonup> string"
  quiz_submitted :: bool
  user_name_input :: string
  shuffled_questions_df :: "question_row list option"
  shuffled_options_map :: "(nat \<rightharpoonup> (string \<times> string) list) option"
  q_mapping :: "nat \<rightharpoonup> (string \<rightharpoonup> string)"
  predicted_character :: "string option"
  user_name_display :: "string option"

text \<open>The session of a new browser tab, after lines 107 to 112.\<close>

definition fresh_session :: session where
  "fresh_session =
     \<lparr>quiz_selections_display = Map.empty, quiz_submitted = False, user_name_input = [],
      shuffled_questions_df = None, shuffled_options_map = None, q_mapping = Map.empty,
      predicted_character = None, user_name_display = None\<rparr>"

text \<open>
  The body of the loop of line 146 for the question at display position \<open>i\<close>. The local
  variable \<open>shuffled_options_map\<close> is the dictionary \<open>m\<close>; it is the same object as the
  one in the session, so the caller stores the final \<open>m\<close> back into the session.
  The option list always starts with the placeholder (\<open>display_options_nonempty\<close>
  below), so \<open>display_options_with_placeholder[0]\<close> never raises.
\<close>

definition render_question ::
  "(nat \<Rightarrow> nat option) \<Rightarrow> nat \<Rightarrow> question_row
     \<Rightarrow> (nat \<rightharpoonup> (string \<times> string) list) \<times> session \<times> rng
     \<Rightarrow> ((nat \<rightharpoonup> (string \<times> string) list) \<times> session \<times> rng) \<times> string \<times> effect" where
  "render_question pick i row st =
     (let (m, s, g) = st;
          (option_pairs, m', g') =
             (case m i of
                None \<Rightarrow> (let (ps, g') = shuffle (original_options row) g in (ps, m(i \<mapsto> ps), g'))
              | Some ps \<Rightarrow> (ps, m, g));
          (display_options_with_placeholder, current_question_option_mapping) =
             display_options option_pairs;
          qm = (case q_mapping s i of
                  None \<Rightarrow> (q_mapping s)(i \<mapsto> current_question_option_mapping)
                | Some _ \<Rightarrow> q_mapping s);
          stored_display_string =
             (case quiz_selections_display s i of
                Some v \<Rightarrow> v
              | None \<Rightarrow> display_options_with_placeholder ! 0);
          index = current_selection_index display_options_with_placeholder stored_display_string;
          selected_display_option = radio display_options_with_placeholder index (pick i);
          s' = s\<lparr>q_mapping := qm,
                 quiz_selections_display :=
                   (quiz_selections_display s)(i \<mapsto> selected_display_option)\<rparr>;
          coded_answer =
             (if selected_display_option = please_select then INVALID
              else (case current_question_option_mapping selected_display_option of
                      Some c \<Rightarrow> c
                    | None \<Rightarrow> INVALID))
      in ((m', s', g'), coded_answer, Radio i display_options_with_placeholder index))"

text \<open>
  The loop of line 146 over \<open>questions_df_for_display.iterrows()\<close>; after
  \<open>reset_index(drop=True)\<close> the index \<open>i\<close> is the display position. The accumulators
  are \<open>current_answers_for_model\<close> and \<open>quiz_is_complete\<close>.
\<close>

fun render_loop ::
  "(nat \<Rightarrow> nat option) \<Rightarrow> nat \<Rightarrow> question_row list
     \<Rightarrow> ((nat \<rightharpoonup> (string \<times> string) list) \<times> session \<times> rng) \<times> string list \<times> bool \<times> effect list
     \<Rightarrow> ((nat \<rightharpoonup> (string \<times> string) list) \<times> session \<times> rng) \<times> string list \<times> bool \<times> effect list" where
  "render_loop pick i [] acc = acc"
| "render_loop pick i (row # rows) (st, current_answers_for_model, quiz_is_complete, out) =
     (let (st', coded_answer, w) = render_question pick i row st
      in render_loop pick (Suc i) rows
           (st', current_answers_for_model @ [coded_answer],
            (if coded_answer = INVALID then False else quiz_is_complete), out @ [w]))"

subsection \<open>The workbook and \<open>update_user_submissions\<close> (lines 50 to 65)\<close>

text \<open>
  A pandas \<open>DataFrame\<close> without its index, and equally a sheet of the file: the column
  names (the header row) and the rows, a cell being \<open>None\<close> where pandas has NaN and
  where the sheet has an empty cell. A workbook is the list of its sheets by name, in
  sheet order, as is the dictionary \<open>all_sheets\<close>.
\<close>

type_synonym cell = "string option"

record dataframe =
  columns :: "string list"
  rows :: "cell list list"

type_synonym workbook = "(string \<times> dataframe) list"

text \<open>The value of a row under a column name; NaN when the frame has no such column.\<close>

definition cell_at :: "string list \<Rightarrow> cell list \<Rightarrow> string \<Rightarrow> cell" where
  "cell_at cols row c = (case map_of (zip cols row) c of Some v \<Rightarrow> v | None \<Rightarrow> None)"

definition realign :: "string list \<Rightarrow> string list \<Rightarrow> cell list \<Rightarrow> cell list" where
  "realign cols new_cols row = map (cell_at cols row) new_cols"

text \<open>
  \<open>pd.concat([a, b], ignore_index=True)\<close>: the columns of \<open>a\<close>, then those of \<open>b\<close> that
  \<open>a\<close> lacks; the rows of \<open>a\<close>, then those of \<open>b\<close>, each aligned to the new columns.
\<close>

definition concat_df :: "dataframe \<Rightarrow> dataframe \<Rightarrow> dataframe" where
  "concat_df a b =
     (let cols = columns a @ filter (\<lambda>c. c \<notin> set (columns a)) (columns b)
      in \<lparr>columns = cols,
          rows = map (realign (columns a) cols) (rows a) @ map (realign (columns b) cols) (rows b)\<rparr>)"

text \<open>A dictionary assignment \<open>d[k] = v\<close> on the list of items: replace in place, or append.\<close>

fun dict_set :: "('k \<times> 'v) list \<Rightarrow> 'k \<Rightarrow> 'v \<Rightarrow> ('k \<times> 'v) list" where
  "dict_set [] k v = [(k, v)]"
| "dict_set ((k', v') # d) k v = (if k' = k then (k, v) # d else (k', v') # dict_set d k v)"

text \<open>
  \<open>pd.read_excel\<close> with its default arguments turns a text cell whose text is one of
  pandas' missing-value markers into NaN; these are the markers of pandas 2. The header
  row gives the column names. Cells are texts here: pandas also converts a column all of
  whose texts read as numbers or as booleans, and such columns are outside this model.
\<close>

definition na_values :: "string list" where
  "na_values =
     [[], ''#N/A'', ''#N/A N/A'', ''#NA'', ''-1.#IND'', ''-1.#QNAN'', ''-NaN'', ''-nan'',
      ''1.#IND'', ''1.#QNAN'', ''<NA>'', ''N/A'', ''NA'', ''NULL'', ''NaN'', ''None'', ''n/a'',
      ''nan'', ''null'']"

definition read_cell :: "cell \<Rightarrow> cell" where
  "read_cell c =
     (case c of None \<Rightarrow> None | Some t \<Rightarrow> if t \<in> set na_values then None else Some t)"

definition read_sheet :: "dataframe \<Rightarrow> dataframe" where
  "read_sheet df = \<lparr>columns = columns df, rows = map (map read_cell) (rows df)\<rparr>"

text \<open>\<open>pd.read_excel(EXCEL_FILE_PATH, sheet_name=None)\<close> on the sheets of the file.\<close>

definition read_excel :: "workbook \<Rightarrow> workbook" where
  "read_excel file = map (\<lambda>(sheet_name, df). (sheet_name, read_sheet df)) file"

text \<open>
  What the file system does during one call: reading the workbook raises (the file is
  missing or unreadable), or writing it raises (leaving some content behind), or both
  succeed. The string is the message of the exception.
\<close>

datatype io = Read_fails string | Write_fails string workbook | Io_ok

text \<open>
  The file at \<open>EXCEL_FILE_PATH\<close> holds the sheets that a successful read parses;
  \<open>df.to_excel(..., index=False)\<close> writes the cells of a frame as they are, NaN as an
  empty cell. The result is the returned flag, the file afterwards and the error shown.
\<close>

definition update_user_submissions ::
  "io \<Rightarrow> workbook \<Rightarrow> dataframe \<Rightarrow> bool \<times> workbook \<times> effect list" where
  "update_user_submissions env file new_entry_df =
     (case env of
        Read_fails e \<Rightarrow>
          (False, file, [Error (''Failed to save your submission: '' @ e @ ''. Please try again.'')])
      | _ \<Rightarrow>
          (let all_sheets = read_excel file;
               user_sub_df =
                 (case map_of all_sheets ''user_submissions'' of
                    Some df \<Rightarrow> df
                  | None \<Rightarrow> \<lparr>columns = columns new_entry_df, rows = []\<rparr>);
               user_sub_df' = concat_df user_sub_df new_entry_df;
               all_sheets' = dict_set all_sheets ''user_submissions'' user_sub_df'
           in (case env of
                 Write_fails e left \<Rightarrow>
                   (False, left,
                    [Error (''Failed to save your submission: '' @ e @ ''. Please try again.'')])
               | _ \<Rightarrow> (True, all_sheets', []))))"

subsection \<open>The inference pipeline (lines 214 to 254)\<close>

definition feature_cols :: "string list" where
  "feature_cols = [''A1'', ''A2'', ''A3'', ''A4'', ''A5'']"

text \<open>
  The loaded artifacts. A fitted \<open>LabelEncoder\<close> is its sorted list \<open>classes_\<close>; the
  classifier is the function its \<open>predict\<close> computes on the one-row frame (the list of
  the items of \<open>encoded_input_dict\<close>), \<open>Inl\<close> being the message of an exception.
\<close>

record resources =
  model :: "(string \<times> nat) list \<Rightarrow> string + nat"
  label_encoders :: "string \<rightharpoonup> string list"
  target_le :: "string list"

text \<open>\<open>le.transform([v])[0]\<close>: the position of \<open>v\<close> in \<open>classes_\<close>, \<open>None\<close> for its \<open>ValueError\<close>.\<close>

definition transform :: "string list \<Rightarrow> string \<Rightarrow> nat option" where
  "transform classes v = list_index classes v"

text \<open>\<open>le.inverse_transform([y])[0]\<close>, which raises \<open>ValueError\<close> outside \<open>range(len(classes_))\<close>.\<close>

definition inverse_transform :: "string list \<Rightarrow> nat \<Rightarrow> string + string" where
  "inverse_transform classes y =
     (if y < length classes then Inr (classes ! y)
      else Inl ''y contains previously unseen labels'')"

text \<open>How a run of the script ends: at its last line, by \<open>st.stop()\<close>, by \<open>st.rerun()\<close>, or by
  an exception that nothing catches. \<open>st.stop()\<close> and \<open>st.rerun()\<close> raise exceptions that do
  not derive from \<open>Exception\<close>, so the handler of line 252 lets them pass.\<close>

datatype control = Completed | Stopped | Rerun | Uncaught string

text \<open>The two messages of lines 222 and 229 (\<open>CHR 0x27\<close> is the single quote).\<close>

definition missing_encoder_message :: "string \<Rightarrow> string" where
  "missing_encoder_message col_name =
     ''Error: Label encoder for '' @ [CHR 0x27] @ col_name @ [CHR 0x27]
       @ '' not found. Model features might not match.''"

definition unseen_answer_message :: "string \<Rightarrow> string \<Rightarrow> string" where
  "unseen_answer_message coded_ans col_name =
     ''Error: Unseen answer '' @ [CHR 0x27] @ coded_ans @ [CHR 0x27] @ '' for question ''
       @ [CHR 0x27] @ col_name @ [CHR 0x27] @ ''. Check quiz data and encoders.''"

text \<open>The loop of line 220 over \<open>zip(feature_cols, current_answers_for_model)\<close>; \<open>Inl\<close> is
  the error shown before \<open>st.stop()\<close>.\<close>

fun encode_loop ::
  "(string \<rightharpoonup> string list) \<Rightarrow> (string \<times> string) list \<Rightarrow> (string \<times> nat) list
     \<Rightarrow> effect + (string \<times> nat) list" where
  "encode_loop les [] encoded_input_dict = Inr encoded_input_dict"
| "encode_loop les ((col_name, coded_ans) # rest) encoded_input_dict =
     (case les col_name of
        None \<Rightarrow> Inl (Error (missing_encoder_message col_name))
      | Some le \<Rightarrow>
          (case transform le coded_ans of
             None \<Rightarrow> Inl (Error (unseen_answer_message coded_ans col_name))
           | Some encoded_val \<Rightarrow>
               encode_loop les rest (dict_set encoded_input_dict col_name encoded_val)))"

definition unexpected :: "string \<Rightarrow> effect list" where
  "unexpected e =
     [Error (''An unexpected error occurred during prediction or result display: '' @ e),
      Info ''Please check your input or try refreshing the page.'']"

text \<open>
  The body of \<open>if st.button("Submit My Answers")\<close>. The result is the session, the
  workbook file, what was emitted and how the run goes on.
\<close>

definition submit ::
  "resources \<Rightarrow> io \<Rightarrow> string \<Rightarrow> string list \<Rightarrow> bool \<Rightarrow> session \<times> workbook
     \<Rightarrow> (session \<times> workbook) \<times> effect list \<times> control" where
  "submit res env user_name current_answers_for_model quiz_is_complete sf =
     (let (s, file) = sf in
      if \<not> quiz_is_complete
      then (sf, [Warning ''Please answer all questions before submitting!''], Completed)
      else
        (case encode_loop (label_encoders res) (zip feature_cols current_answers_for_model) [] of
           Inl err \<Rightarrow> (sf, [err], Stopped)
         | Inr encoded_input_dict \<Rightarrow>
             (case model res encoded_input_dict of
                Inl e \<Rightarrow> (sf, Predict encoded_input_dict # unexpected e, Completed)
              | Inr predicted_code \<Rightarrow>
                  (case inverse_transform (target_le res) predicted_code of
                     Inl e \<Rightarrow> (sf, Predict encoded_input_dict # unexpected e, Completed)
                   | Inr character \<Rightarrow>
                       (let submission_columns = [''Name''] @ feature_cols @ [''Predicted_Character''];
                            new_entry_data = [user_name] @ current_answers_for_model @ [character]
                        in if length new_entry_data \<noteq> length submission_columns
                           then (sf, Predict encoded_input_dict
                                       # unexpected ''columns passed do not match the data'',
                                 Completed)
                           else
                             (let new_entry_df =
                                    \<lparr>columns = submission_columns, rows = [map Some new_entry_data]\<rparr>;
                                  (ok, file', shown) = update_user_submissions env file new_entry_df
                              in if ok
                                 then ((s\<lparr>quiz_submitted := True,
                                          predicted_character := Some character,
                                          user_name_display := Some user_name\<rparr>, file'),
                                       Predict encoded_input_dict # shown, Rerun)
                                 else ((s, file'),
                                       Predict encoded_input_dict # shown
                                         @ [Error ''Failed to save your quiz results. Please contact support.''],
                                       Completed)))))))"

subsection \<open>The script (lines 114 to 322)\<close>

text \<open>
  What surrounds one run of the script: the user's picks in the radio widgets, whether
  \<open>st.button("Submit My Answers")\<close> returns \<open>True\<close>, the behaviour of the workbook file,
  and the image folder (\<open>os.path.exists\<close>, and the message of the exception of
  \<open>Image.open\<close> if it raises).
\<close>

record environment =
  pick :: "nat \<Rightarrow> nat option"
  submit_clicked :: bool
  fs :: io
  IMAGE_FOLDER_PATH :: string
  path_exists :: "string \<Rightarrow> bool"
  image_open :: "string \<Rightarrow> string option"

text \<open>
  Lines 117 to 129. \<open>sample seed df\<close> stands for pandas'
  \<open>df.sample(frac=1, random_state=seed).reset_index(drop=True)\<close>. Reading a key that the
  session lacks raises \<open>AttributeError\<close>. The result holds the locals
  \<open>questions_df_for_display\<close> and \<open>shuffled_options_map\<close>.
\<close>

definition shuffling_logic ::
  "(nat \<Rightarrow> question_row list \<Rightarrow> question_row list) \<Rightarrow> question_row list \<Rightarrow> session \<times> rng
     \<Rightarrow> string + (question_row list \<times> (nat \<rightharpoonup> (string \<times> string) list) \<times> session \<times> rng)" where
  "shuffling_logic sample original_questions_df sg =
     (let (s, g) = sg;
          (s1, g1) =
            (if \<not> quiz_submitted s \<and> shuffled_questions_df s = None
             then (let (seed, g') = randint 0 10000 g
                   in (s\<lparr>shuffled_questions_df := Some (sample seed original_questions_df),
                         shuffled_options_map := Some Map.empty\<rparr>, g'))
             else (s, g))
      in (case (shuffled_questions_df s1, shuffled_options_map s1) of
            (Some questions_df_for_display, Some m) \<Rightarrow> Inr (questions_df_for_display, m, s1, g1)
          | _ \<Rightarrow> Inl ''AttributeError''))"

text \<open>
  Lines 135 to 256, the quiz form. \<open>st.text_input(..., key="user_name_input")\<close> returns the
  session's value under that key. The headings and separators are left out of the
  emitted elements.
\<close>

definition quiz_form ::
  "resources \<Rightarrow> environment \<Rightarrow> question_row list \<Rightarrow> (nat \<rightharpoonup> (string \<times> string) list)
     \<Rightarrow> session \<times> workbook \<times> rng
     \<Rightarrow> (session \<times> workbook \<times> rng) \<times> effect list \<times> control" where
  "quiz_form res env questions_df_for_display m st =
     (let (s, file, g) = st;
          user_name = user_name_input s
      in if user_name \<noteq> []
         then
           (let ((m', s', g'), current_answers_for_model, quiz_is_complete, widgets) =
                  render_loop (pick env) 0 questions_df_for_display ((m, s, g), [], True, []);
                s'' = s'\<lparr>shuffled_options_map := Some m'\<rparr>
            in if submit_clicked env
               then (let ((s3, file'), shown, ctl) =
                           submit res (fs env) user_name current_answers_for_model
                             quiz_is_complete (s'', file)
                     in ((s3, file', g'), widgets @ shown, ctl))
               else ((s'', file, g'), widgets, Completed))
         else (st, [Info ''Please enter your name to start the quiz!''], Completed))"

definition character_descriptions :: "(string \<times> string) list" where
  "character_descriptions =
     [(''Harry Potter'',
       ''With unshakable courage and a heart that leaps to protect, Harry faces danger head-on, leading the way into every adventure, always guided by the unwavering light of doing what''
         @ [CHR 0xE2, CHR 0x80, CHR 0x99] @ ''s right.''),
      (''Hermione Granger'',
       ''With brilliance in her mind and honesty in her heart, Hermione finds answers in books and logic, creating thoughtful plans that transform curiosity into power''),
      (''Ron Weasley'',
       ''With loyalty as his compass and humor as his shield, Ron may stumble in panic, but he always stands by those he loves, offering the warmth of friendship above all.''),
      (''Draco Malfoy'',
       ''Driven by ambition and influence, Draco plays life like a chessboard, crafting strategies to turn every challenge into an opportunity for power and success.''),
      (''Neville Longbottom'',
       ''Gentle yet steadfast, Neville grows stronger with every struggle, turning kindness and perseverance into quiet acts of bravery that prove doubters wrong.'')]"

text \<open>
  Lines 259 to 296, the result view: the only place where the script shows a predicted
  character. When the session lacks one of the two keys, line 296 reads the undefined name
  \<open>predicted_character\<close>. The share link and the button that follow are not modelled,
  except for the button's callback \<open>reset_quiz_state\<close>.
\<close>

definition results_view :: "environment \<Rightarrow> session \<Rightarrow> effect list \<times> control" where
  "results_view env s =
     (case (predicted_character s, user_name_display s) of
        (Some character, Some name) \<Rightarrow>
          (let desc = (case map_of character_descriptions character of
                         Some d \<Rightarrow> d
                       | None \<Rightarrow> ''A truly unique magical being!'');
               img_path_jpg = IMAGE_FOLDER_PATH env @ ''/'' @ character @ ''.jpg'';
               img_path_png = IMAGE_FOLDER_PATH env @ ''/'' @ character @ ''.png'';
               final_image_path =
                 (if path_exists env img_path_jpg then Some img_path_jpg
                  else if path_exists env img_path_png then Some img_path_png
                  else None)
           in (Success ([CHR 0xF0, CHR 0x9F, CHR 0x8E, CHR 0x89] @ '' '' @ name
                        @ '', you are most like **'' @ character @ ''**!'')
               # (case final_image_path of
                    Some p \<Rightarrow>
                      (case image_open env p of
                         None \<Rightarrow> [Image p (character @ '': '' @ desc)]
                       | Some e \<Rightarrow>
                           [Warning (''Could not load image for '' @ character @ '' from ''
                                     @ [CHR 0x27] @ p @ [CHR 0x27] @ '': '' @ e)])
                  | None \<Rightarrow>
                      [Warning (''Image not found for '' @ [CHR 0x27] @ character @ [CHR 0x27]
                                @ '' in '' @ [CHR 0x27] @ IMAGE_FOLDER_PATH env @ [CHR 0x27]
                                @ ''. Tried: '' @ character @ ''.jpg, '' @ character @ ''.png''),
                       Markdown (''**'' @ desc @ ''**'')]),
               Completed))
      | _ \<Rightarrow>
          ([Error ''Something went wrong displaying results. Please try again.''],
           Uncaught ''NameError''))"

text \<open>One run of the script on the session, the workbook file and the random generator.\<close>

definition run_script ::
  "(nat \<Rightarrow> question_row list \<Rightarrow> question_row list) \<Rightarrow> question_row list \<Rightarrow> resources
     \<Rightarrow> environment \<Rightarrow> session \<times> workbook \<times> rng
     \<Rightarrow> (session \<times> workbook \<times> rng) \<times> effect list \<times> control" where
  "run_script sample original_questions_df res env st =
     (let (s, file, g) = st
      in (case shuffling_logic sample original_questions_df (s, g) of
            Inl e \<Rightarrow> (st, [], Uncaught e)
          | Inr (questions_df_for_display, m, s1, g1) \<Rightarrow>
              if \<not> quiz_submitted s1
              then quiz_form res env questions_df_for_display m (s1, file, g1)
              else (let (shown, ctl) = results_view env s1 in ((s1, file, g1), shown, ctl))))"

text \<open>Lines 68 to 76, the callback of the button \<open>Take Quiz Again\<close>.\<close>

definition reset_quiz_state :: "session \<Rightarrow> session" where
  "reset_quiz_state s =
     s\<lparr>quiz_submitted := False, user_name_input := [], quiz_selections_display := Map.empty,
       shuffled_questions_df := None, shuffled_options_map := None\<rparr>"

section \<open>Functions of the specification and example data\<close>

text \<open>
  The display strings that the loop of line 173 appends for the option pairs \<open>ps\<close>,
  the first of them labelled with position \<open>idx\<close>; used to state what
  \<open>display_loop\<close> computes.
\<close>

fun display_strings :: "nat \<Rightarrow> (string \<times> string) list \<Rightarrow> string list" where
  "display_strings idx [] = []"
| "display_strings idx ((model_code, option_text) # ps) =
     display_string idx option_text # display_strings (Suc idx) ps"

text \<open>
  The coded answer that lines 202 to 206 derive from the selected display string \<open>sel\<close>
  of a question whose option pairs are shown in the order \<open>ps\<close>.
\<close>

definition coded :: "(string \<times> string) list \<Rightarrow> string \<Rightarrow> string" where
  "coded ps sel =
     (if sel = please_select then INVALID
      else (case snd (display_options ps) sel of Some c \<Rightarrow> c | None \<Rightarrow> INVALID))"

text \<open>
  Further runs of the script on one session with no reset in between. Before each run the
  user may have retyped the name; the workbook file and the random generator, which other
  sessions share, are whatever they are at that moment. The result is the session at the
  end and what each run emitted.
\<close>

fun reruns ::
  "(nat \<Rightarrow> question_row list \<Rightarrow> question_row list) \<Rightarrow> question_row list \<Rightarrow> resources
     \<Rightarrow> (environment \<times> string \<times> workbook \<times> rng) list \<Rightarrow> session
     \<Rightarrow> session \<times> effect list list" where
  "reruns sample original_questions_df res [] s = (s, [])"
| "reruns sample original_questions_df res ((env, name, file, g) # steps) s =
     (let ((s1, file1, g1), out, ctl) =
            run_script sample original_questions_df res env (s\<lparr>user_name_input := name\<rparr>, file, g);
          (s2, outs) = reruns sample original_questions_df res steps s1
      in (s2, out # outs))"

definition example_row :: question_row where
  "example_row =
     \<lparr>Question = ''What do you do?'', Option_A = ''Fight'', Option_B = ''Plan'',
      Option_C = ''Joke'', Option_D = ''Scheme'', Option_E = ''Endure''\<rparr>"

definition example_questions :: "question_row list" where
  "example_questions =
     [\<lparr>Question = ''Q1'', Option_A = ''1a'', Option_B = ''1b'', Option_C = ''1c'',
       Option_D = ''1d'', Option_E = ''1e''\<rparr>,
      \<lparr>Question = ''Q2'', Option_A = ''2a'', Option_B = ''2b'', Option_C = ''2c'',
       Option_D = ''2d'', Option_E = ''2e''\<rparr>,
      \<lparr>Question = ''Q3'', Option_A = ''3a'', Option_B = ''3b'', Option_C = ''3c'',
       Option_D = ''3d'', Option_E = ''3e''\<rparr>,
      \<lparr>Question = ''Q4'', Option_A = ''4a'', Option_B = ''4b'', Option_C = ''4c'',
       Option_D = ''4d'', Option_E = ''4e''\<rparr>,
      \<lparr>Question = ''Q5'', Option_A = ''5a'', Option_B = ''5b'', Option_C = ''5c'',
       Option_D = ''5d'', Option_E = ''5e''\<rparr>]"

text \<open>
  Artifacts as \<open>train_model.py\<close> produces them: one encoder per feature column, fitted on
  the codes A to E, a target encoder fitted on the five characters, and a classifier (here
  one that looks at the first two features only).
\<close>

definition example_resources :: resources where
  "example_resources =
     \<lparr>model = (\<lambda>x. Inr (((case map_of x ''A1'' of Some v \<Rightarrow> v | None \<Rightarrow> 0)
                           + 2 * (case map_of x ''A2'' of Some v \<Rightarrow> v | None \<Rightarrow> 0)) mod 5)),
      label_encoders =
        map_of (map (\<lambda>c. (c, [''A'', ''B'', ''C'', ''D'', ''E''])) feature_cols),
      target_le = [''Draco Malfoy'', ''Harry Potter'', ''Hermione Granger'',
                   ''Neville Longbottom'', ''Ron Weasley'']\<rparr>"

definition example_workbook :: workbook where
  "example_workbook =
     [(''questions_and_answers'',
       \<lparr>columns = [''Question'', ''Option A'', ''Option B'', ''Option C'', ''Option D'', ''Option E''],
        rows = [[Some ''Q1'', Some ''1a'', Some ''1b'', Some ''1c'', Some ''1d'', Some ''1e'']]\<rparr>),
      (''answers_training_data'',
       \<lparr>columns = [''A1'', ''A2'', ''A3'', ''A4'', ''A5'', ''Character''],
        rows = [[Some ''A'', Some ''B'', Some ''A'', Some ''C'', Some ''D'', Some ''Harry Potter'']]\<rparr>),
      (''user_submissions'',
       \<lparr>columns = [''Name'', ''A1'', ''A2'', ''A3'', ''A4'', ''A5'', ''Predicted_Character''],
        rows = [[Some ''Bob'', Some ''A'', Some ''A'', Some ''A'', Some ''A'', Some ''A'',
                 Some ''Draco Malfoy'']]\<rparr>)]"

text \<open>
  An environment in which the user presses the submit button, with the given picks and the
  given behaviour of the workbook file; the image folder is empty.
\<close>

definition example_env :: "(nat \<Rightarrow> nat option) \<Rightarrow> io \<Rightarrow> environment" where
  "example_env pk io =
     \<lparr>pick = pk, submit_clicked = True, fs = io, IMAGE_FOLDER_PATH = ''character_images'',
      path_exists = (\<lambda>_. False), image_open = (\<lambda>_. None)\<rparr>"

text \<open>A new session in which the user has typed a name.\<close>

definition named_session :: session where
  "named_session = fresh_session\<lparr>user_name_input := ''Ann''\<rparr>"


text \<open>
  Section 4.2 of the specification, steps 2 to 4: the character that encoding the answer
  codes, predicting and decoding gives, \<open>None\<close> when one of the steps fails.
\<close>

definition encode_predict_decode :: "resources \<Rightarrow> string list \<Rightarrow> string option" where
  "encode_predict_decode res answers =
     (case encode_loop (label_encoders res) (zip feature_cols answers) [] of
        Inl e \<Rightarrow> None
      | Inr encoded \<Rightarrow>
          (case model res encoded of
             Inl e \<Rightarrow> None
           | Inr predicted_code \<Rightarrow>
               (case inverse_transform (target_le res) predicted_code of
                  Inl e \<Rightarrow> None
                | Inr character \<Rightarrow> Some character)))"

text \<open>A one-row entry as line 241 builds it.\<close>

definition example_entry :: dataframe where
  "example_entry =
     \<lparr>columns = [''Name'', ''A1'', ''A2'', ''A3'', ''A4'', ''A5'', ''Predicted_Character''],
      rows = [[Some ''Ann'', Some ''B'', Some ''B'', Some ''B'', Some ''B'', Some ''B'',
               Some ''Neville Longbottom'']]\<rparr>"

text \<open>
  The texts that an emitted element puts on the page, and whether some element of a run
  shows a given character name. A call of the classifier shows nothing.
\<close>

fun texts_of :: "effect \<Rightarrow> string list" where
  "texts_of (Error msg) = [msg]"
| "texts_of (Warning msg) = [msg]"
| "texts_of (Info msg) = [msg]"
| "texts_of (Success msg) = [msg]"
| "texts_of (Markdown msg) = [msg]"
| "texts_of (Radio i opts index) = opts"
| "texts_of (Image path caption) = [caption]"
| "texts_of (Predict x) = []"

fun contains :: "string \<Rightarrow> string \<Rightarrow> bool" where
  "contains sub [] = (sub = [])"
| "contains sub (c # cs) = (take (length sub) (c # cs) = sub \<or> contains sub cs)"

definition shows_character :: "string \<Rightarrow> effect list \<Rightarrow> bool" where
  "shows_character character out = list_ex (\<lambda>e. list_ex (contains character) (texts_of e)) out"

text \<open>
  Section 3 of the specification: the answers by the questions' positions in the original
  dataset. \<open>answers\<close> holds the coded answers by display position; the answer to an
  original row is the one given where that row is displayed.
\<close>

definition answers_in_original_order ::
  "question_row list \<Rightarrow> question_row list \<Rightarrow> string list \<Rightarrow> string option list" where
  "answers_in_original_order original displayed answers =
     map (\<lambda>row. case list_index displayed row of
                   Some p \<Rightarrow> if p < length answers then Some (answers ! p) else None
                 | None \<Rightarrow> None) original"

text \<open>
  The state of the shuffle keys that the script maintains: the question order and the cache
  of option orders are present together, and every cached order belongs to a displayed
  question and is a permutation of that question's original option pairs.
\<close>

definition session_ok :: "session \<Rightarrow> bool" where
  "session_ok s =
     (case shuffled_questions_df s of
        None \<Rightarrow> shuffled_options_map s = None
      | Some q \<Rightarrow>
          (case shuffled_options_map s of
             None \<Rightarrow> False
           | Some m \<Rightarrow>
               (\<forall>i ps. m i = Some ps \<longrightarrow>
                  i < length q \<and> mset ps = mset (original_options (q ! i)))))"

text \<open>
  The entry of a user who typed the name NA and answered C, A, A, A, A, and the example
  workbook after that entry has been recorded.
\<close>

definition NA_entry :: dataframe where
  "NA_entry =
     \<lparr>columns = [''Name'', ''A1'', ''A2'', ''A3'', ''A4'', ''A5'', ''Predicted_Character''],
      rows = [[Some ''NA'', Some ''C'', Some ''A'', Some ''A'', Some ''A'', Some ''A'',
               Some ''Hermione Granger'']]\<rparr>"

definition NA_workbook :: workbook where
  "NA_workbook =
     [(''questions_and_answers'',
       \<lparr>columns = [''Question'', ''Option A'', ''Option B'', ''Option C'', ''Option D'', ''Option E''],
        rows = [[Some ''Q1'', Some ''1a'', Some ''1b'', Some ''1c'', Some ''1d'', Some ''1e'']]\<rparr>),
      (''answers_training_data'',
       \<lparr>columns = [''A1'', ''A2'', ''A3'', ''A4'', ''A5'', ''Character''],
        rows = [[Some ''A'', Some ''B'', Some ''A'', Some ''C'', Some ''D'', Some ''Harry Potter'']]\<rparr>),
      (''user_submissions'',
       \<lparr>columns = [''Name'', ''A1'', ''A2'', ''A3'', ''A4'', ''A5'', ''Predicted_Character''],
        rows = [[Some ''Bob'', Some ''A'', Some ''A'', Some ''A'', Some ''A'', Some ''A'',
                 Some ''Draco Malfoy''],
                [Some ''NA'', Some ''C'', Some ''A'', Some ''A'', Some ''A'', Some ''A'',
                 Some ''Hermione Granger'']]\<rparr>)]"

text \<open>A generator whose every draw is 0.\<close>

definition zero_rng :: rng where
  "zero_rng = (\<lambda>_. 0)"

text \<open>
  The option orders that successive calls of \<open>random.shuffle\<close> draw for the questions
  \<open>qs\<close> from the generator \<open>g\<close>, and the radio widgets that show them, numbered from
  \<open>i\<close>, with the placeholder preselected.
\<close>

fun fresh_orders :: "question_row list \<Rightarrow> rng \<Rightarrow> (string \<times> string) list list" where
  "fresh_orders [] g = []"
| "fresh_orders (row # qs) g =
     (let (ps, g') = shuffle (original_options row) g in ps # fresh_orders qs g')"

definition fresh_widgets :: "nat \<Rightarrow> question_row list \<Rightarrow> rng \<Rightarrow> effect list" where
  "fresh_widgets i qs g =
     map (\<lambda>(j, ps). Radio j (please_select # display_strings 0 ps) 0)
       (enumerate i (fresh_orders qs g))"

text \<open>A sampler that reverses the rows for an even seed and keeps them for an odd one.\<close>

definition example_sample :: "nat \<Rightarrow> question_row list \<Rightarrow> question_row list" where
  "example_sample seed qs = (if even seed then rev qs else qs)"

text \<open>The session after Ann has answered B to every question and submitted.\<close>

definition submitted_session :: session where
  "submitted_session =
     fst (fst (run_script example_sample example_questions example_resources
                 (example_env (\<lambda>_. Some 1) Io_ok) (named_session, example_workbook, zero_rng)))"

section \<open>Properties\<close>

lemma list_index_Some:
  "list_index xs v = Some k \<Longrightarrow> k < length xs \<and> xs ! k = v \<and> v \<notin> set (take k xs)"
proof (induction xs arbitrary: k)
  case Nil
  then show ?case by simp
next
  case (Cons x xs)
  show ?case
  proof (cases "x = v")
    case True
    with Cons.prems show ?thesis by simp
  next
    case False
    with Cons.prems obtain k' where k': "list_index xs v = Some k'" "k = Suc k'"
      by auto
    from Cons.IH [OF k'(1)] False k'(2) show ?thesis by simp
  qed
qed

lemma list_index_None: "list_index xs v = None \<longleftrightarrow> v \<notin> set xs"
  by (induction xs) auto

subsection \<open>The display options and the option mapping\<close>

lemma display_loop_opts:
  "fst (display_loop idx ps (opts, mp)) = opts @ display_strings idx ps"
  by (induction ps arbitrary: idx opts mp) (auto simp: Let_def)

lemma display_loop_untouched:
  "d \<notin> set (display_strings idx ps) \<Longrightarrow> snd (display_loop idx ps (opts, mp)) d = mp d"
  by (induction ps arbitrary: idx opts mp) (auto simp: Let_def)

lemma length_display_strings [simp]: "length (display_strings idx ps) = length ps"
  by (induction ps arbitrary: idx) auto

lemma display_strings_nth:
  "k < length ps \<Longrightarrow> display_strings idx ps ! k = display_string (idx + k) (snd (ps ! k))"
proof (induction ps arbitrary: idx k)
  case Nil
  then show ?case by simp
next
  case (Cons p ps)
  obtain c t where p: "p = (c, t)" by (cases p)
  show ?case
  proof (cases k)
    case 0
    then show ?thesis by (simp add: p)
  next
    case (Suc k')
    with Cons.prems have "k' < length ps" by simp
    from Cons.IH [OF this, of "Suc idx"] show ?thesis by (simp add: p Suc)
  qed
qed

lemma display_label_inj:
  "a < 191 \<Longrightarrow> b < 191 \<Longrightarrow> display_label a = display_label b \<longleftrightarrow> a = b"
  by (simp add: display_label_def char_of_quasi_inj)

lemma display_string_inj:
  "a < 191 \<Longrightarrow> b < 191 \<Longrightarrow> display_string a s = display_string b t \<longleftrightarrow> a = b \<and> s = t"
  by (auto simp: display_string_def display_label_inj)

lemma display_string_not_placeholder: "display_string idx t \<noteq> please_select"
  by (simp add: display_string_def please_select_def)


lemma display_strings_distinct:
  "idx + length ps \<le> 191 \<Longrightarrow> distinct (display_strings idx ps)"
  by (auto simp: distinct_conv_nth display_strings_nth display_string_inj)

lemma display_loop_mapping:
  assumes "idx + length ps \<le> 191" "k < length ps"
  shows "snd (display_loop idx ps (opts, mp)) (display_strings idx ps ! k) = Some (fst (ps ! k))"
  using assms
proof (induction ps arbitrary: idx opts mp k)
  case Nil
  then show ?case by simp
next
  case (Cons p ps)
  obtain c t where p: "p = (c, t)" by (cases p)
  show ?case
  proof (cases k)
    case 0
    have "distinct (display_strings idx (p # ps))"
      using Cons.prems(1) by (rule display_strings_distinct)
    then have "display_string idx t \<notin> set (display_strings (Suc idx) ps)"
      by (simp add: p)
    then show ?thesis
      by (simp add: p 0 Let_def display_loop_untouched)
  next
    case (Suc k')
    with Cons.prems have "k' < length ps" "Suc idx + length ps \<le> 191" by simp_all
    from Cons.IH [OF this(2) this(1)] show ?thesis by (simp add: p Suc Let_def)
  qed
qed

lemma display_options_nonempty:
  "fst (display_options ps) = please_select # display_strings 0 ps"
  by (simp add: display_options_def display_loop_opts)

lemma display_options_mapping:
  "length ps \<le> 191 \<Longrightarrow> k < length ps \<Longrightarrow>
     snd (display_options ps) (display_strings 0 ps ! k) = Some (fst (ps ! k))"
  by (simp add: display_options_def display_loop_mapping)

lemma display_options_placeholder_unmapped:
  "snd (display_options ps) please_select = None"
proof -
  have "please_select \<notin> set (display_strings 0 ps)"
    by (auto simp: in_set_conv_nth display_strings_nth display_string_not_placeholder)
  then show ?thesis
    by (simp add: display_options_def display_loop_untouched)
qed

lemma mset_shuffle_loop:
  "i < length x \<Longrightarrow> mset (fst (shuffle_loop i x g)) = mset x"
proof (induction i arbitrary: x g)
  case 0
  then show ?case by simp
next
  case (Suc i)
  let ?j = "g 0 mod (Suc i + 1)"
  let ?x' = "x[Suc i := x ! ?j, ?j := x ! Suc i]"
  have j: "?j < length x" using Suc.prems
    by (metis Suc_eq_plus1 less_Suc_eq_le mod_less_divisor order_less_le_trans zero_less_Suc not_less_eq)
  have "mset ?x' = mset x"
    using Suc.prems j by (simp add: mset_swap)
  moreover have "i < length ?x'" using Suc.prems by simp
  ultimately show ?case
    using Suc.IH [of ?x'] by (simp add: randbelow_def)
qed

lemma mset_shuffle: "mset (fst (shuffle x g)) = mset x"
proof (cases x)
  case Nil
  then show ?thesis by (simp add: shuffle_def)
next
  case (Cons a as)
  then show ?thesis by (simp add: shuffle_def mset_shuffle_loop)
qed


subsection \<open>Selection restoration\<close>

lemma current_selection_index_found:
  "v \<in> set opts \<Longrightarrow>
     current_selection_index opts v < length opts \<and> opts ! current_selection_index opts v = v
     \<and> v \<notin> set (take (current_selection_index opts v) opts)"
proof -
  assume "v \<in> set opts"
  then obtain k where k: "list_index opts v = Some k"
    using list_index_None [of opts v] by (cases "list_index opts v") auto
  from list_index_Some [OF k] k show ?thesis
    by (simp add: current_selection_index_def)
qed

lemma current_selection_index_missing:
  "v \<notin> set opts \<Longrightarrow> current_selection_index opts v = 0"
  by (simp add: current_selection_index_def list_index_None [THEN iffD2])

lemma render_question_widget:
  assumes "render_question pk i row (m, s, g) = (st', coded_answer, w)"
  shows "\<exists>ps. w = Radio i (please_select # display_strings 0 ps)
            (current_selection_index (please_select # display_strings 0 ps)
               (case quiz_selections_display s i of Some v \<Rightarrow> v | None \<Rightarrow> please_select))"
  using assms
  by (auto simp: render_question_def Let_def split_beta display_options_nonempty
           split: option.splits)

text \<open>
  C7. Selection restoration is total: rendering a question always yields a radio widget
  whose preselected index lies inside the option list, whose first option is the
  placeholder, and whose index is the first position of the stored display string when that
  string is among the options, and position 0 (the placeholder) when it is not, or when
  nothing is stored. The \<open>ValueError\<close> of the lookup is a value of the model
  (\<open>list_index\<close> returns \<open>None\<close>) and is handled; no path raises.
\<close>

theorem selection_restoration_total:
  assumes "render_question pk i row (m, s, g) = (st', coded_answer, w)"
  shows "\<exists>opts k. w = Radio i opts k \<and> k < length opts \<and> opts ! 0 = please_select \<and>
     (case quiz_selections_display s i of
        None \<Rightarrow> k = 0
      | Some stored \<Rightarrow>
          (if stored \<in> set opts then opts ! k = stored \<and> stored \<notin> set (take k opts)
           else k = 0))"
proof -
  from render_question_widget [OF assms] obtain ps where
    w: "w = Radio i (please_select # display_strings 0 ps)
            (current_selection_index (please_select # display_strings 0 ps)
               (case quiz_selections_display s i of Some v \<Rightarrow> v | None \<Rightarrow> please_select))"
    by blast
  let ?opts = "please_select # display_strings 0 ps"
  let ?stored = "case quiz_selections_display s i of Some v \<Rightarrow> v | None \<Rightarrow> please_select"
  let ?k = "current_selection_index ?opts ?stored"
  have in_range: "?k < length ?opts"
  proof (cases "?stored \<in> set ?opts")
    case True
    from current_selection_index_found [OF this] show ?thesis by blast
  next
    case False
    from current_selection_index_missing [OF this] show ?thesis by simp
  qed
  have restored: "case quiz_selections_display s i of
        None \<Rightarrow> ?k = 0
      | Some stored \<Rightarrow>
          (if stored \<in> set ?opts then ?opts ! ?k = stored \<and> stored \<notin> set (take ?k ?opts)
           else ?k = 0)"
  proof (cases "quiz_selections_display s i")
    case None
    then show ?thesis by (simp add: current_selection_index_def)
  next
    case (Some stored)
    show ?thesis
    proof (cases "stored \<in> set ?opts")
      case True
      from current_selection_index_found [OF this] show ?thesis
        using Some True by simp
    next
      case False
      from current_selection_index_missing [OF this] show ?thesis
        using Some False by simp
    qed
  qed
  from w in_range restored show ?thesis by (intro exI [of _ ?opts] exI [of _ ?k]) simp
qed

theorem selection_restoration_total_witness:
  "render_question (\<lambda>_. None) 0 example_row
      (Map.empty, fresh_session\<lparr>quiz_selections_display := [0 \<mapsto> ''B. Joke'']\<rparr>, zero_rng)
    = (fst (render_question (\<lambda>_. None) 0 example_row
         (Map.empty, fresh_session\<lparr>quiz_selections_display := [0 \<mapsto> ''B. Joke'']\<rparr>, zero_rng)),
       ''C'',
       Radio 0 [''--- Please Select ---'', ''A. Plan'', ''B. Joke'', ''C. Scheme'',
                ''D. Endure'', ''E. Fight''] 2)
   \<and> (\<exists>opts k. Radio 0 [''--- Please Select ---'', ''A. Plan'', ''B. Joke'', ''C. Scheme'',
                ''D. Endure'', ''E. Fight''] 2 = Radio 0 opts k \<and> k < length opts
          \<and> opts ! 0 = please_select \<and> opts ! k = ''B. Joke'')"
proof -
  let ?s = "fresh_session\<lparr>quiz_selections_display := [0 \<mapsto> ''B. Joke'']\<rparr>"
  let ?r = "render_question (\<lambda>_. None) 0 example_row (Map.empty, ?s, zero_rng)"
  let ?w = "Radio 0 [''--- Please Select ---'', ''A. Plan'', ''B. Joke'', ''C. Scheme'',
                ''D. Endure'', ''E. Fight''] 2"
  have c: "fst (snd ?r) = ''C''" by code_simp
  have w: "snd (snd ?r) = ?w" by code_simp
  have r: "?r = (fst ?r, ''C'', ?w)"
    using c w by (metis prod.collapse)
  have stored: "quiz_selections_display ?s 0 = Some ''B. Joke''" by simp
  from selection_restoration_total [OF r] obtain opts k where
    ok: "?w = Radio 0 opts k" "k < length opts" "opts ! 0 = please_select"
      "case quiz_selections_display ?s 0 of
         None \<Rightarrow> k = 0
       | Some stored \<Rightarrow>
          (if stored \<in> set opts then opts ! k = stored \<and> stored \<notin> set (take k opts)
           else k = 0)"
    by blast
  from ok(1) have "opts ! k = ''B. Joke''" by (auto simp: numeral_2_eq_2)
  with ok(1-3) r show ?thesis by blast
qed


subsection \<open>The shuffled options are a permutation\<close>

lemma render_question_parts:
  "render_question pk i row (m, s, g) = ((m', s', g'), coded_answer, w) \<Longrightarrow>
   \<exists>option_pairs.
     option_pairs = (case m i of None \<Rightarrow> fst (shuffle (original_options row) g) | Some ps \<Rightarrow> ps) \<and>
     m' = m(i \<mapsto> option_pairs) \<and>
     g' = (case m i of None \<Rightarrow> snd (shuffle (original_options row) g) | Some ps \<Rightarrow> g) \<and>
     w = Radio i (please_select # display_strings 0 option_pairs)
           (current_selection_index (please_select # display_strings 0 option_pairs)
              (case quiz_selections_display s i of Some v \<Rightarrow> v | None \<Rightarrow> please_select)) \<and>
     quiz_selections_display s' =
       (quiz_selections_display s)
         (i \<mapsto> radio (please_select # display_strings 0 option_pairs)
            (current_selection_index (please_select # display_strings 0 option_pairs)
              (case quiz_selections_display s i of Some v \<Rightarrow> v | None \<Rightarrow> please_select)) (pk i)) \<and>
     coded_answer =
       (let sel = radio (please_select # display_strings 0 option_pairs)
            (current_selection_index (please_select # display_strings 0 option_pairs)
              (case quiz_selections_display s i of Some v \<Rightarrow> v | None \<Rightarrow> please_select)) (pk i)
        in if sel = please_select then INVALID
           else (case snd (display_options option_pairs) sel of Some c \<Rightarrow> c | None \<Rightarrow> INVALID))"
  by (auto simp: render_question_def Let_def split_beta display_options_nonempty
           split: option.splits)

lemma mset_original_codes:
  "mset ps = mset (original_options row) \<Longrightarrow>
     mset (map fst ps) = mset [''A'', ''B'', ''C'', ''D'', ''E''] \<and> length ps = 5"
proof -
  assume a: "mset ps = mset (original_options row)"
  then have "mset (map fst ps) = mset (map fst (original_options row))"
    by (metis mset_map)
  moreover from a have "length ps = length (original_options row)"
    by (rule mset_eq_length)
  ultimately show ?thesis by (simp add: original_options_def)
qed

lemma display_options_inverse:
  assumes "length ps \<le> 191"
  shows "map (snd (display_options ps)) (display_strings 0 ps) = map (Some \<circ> fst) ps"
  using assms by (simp add: list_eq_iff_nth_eq display_options_mapping)

lemma display_options_distinct:
  assumes "length ps \<le> 191"
  shows "distinct (please_select # display_strings 0 ps)"
proof -
  have "please_select \<notin> set (display_strings 0 ps)"
    by (auto simp: in_set_conv_nth display_strings_nth display_string_not_placeholder)
  with assms show ?thesis by (simp add: display_strings_distinct)
qed

text \<open>
  C10. Rendering a question whose cached option order, if there is one, is a permutation
  of the question's five original (code, text) pairs shows an option list built from a
  permutation of those pairs: the order in the cache afterwards has each of the codes
  A to E exactly once, the widget's options are the placeholder followed by one display
  string per pair, all different, and the option mapping sends the display string at each
  position to the code of the pair at that position, and the placeholder to no code.
\<close>

theorem shuffled_options_permutation:
  assumes cached: "case m i of None \<Rightarrow> True | Some ps \<Rightarrow> mset ps = mset (original_options row)"
      and r: "render_question pk i row (m, s, g) = ((m', s', g'), coded_answer, w)"
  shows "\<exists>option_pairs k.
      m' i = Some option_pairs \<and>
      mset option_pairs = mset (original_options row) \<and>
      mset (map fst option_pairs) = mset [''A'', ''B'', ''C'', ''D'', ''E''] \<and>
      w = Radio i (please_select # display_strings 0 option_pairs) k \<and>
      distinct (please_select # display_strings 0 option_pairs) \<and>
      map (snd (display_options option_pairs)) (display_strings 0 option_pairs)
        = map (Some \<circ> fst) option_pairs \<and>
      snd (display_options option_pairs) please_select = None"
proof -
  let ?ps = "case m i of None \<Rightarrow> fst (shuffle (original_options row) g) | Some ps \<Rightarrow> ps"
  from render_question_parts [OF r] obtain k where
    m': "m' = m(i \<mapsto> ?ps)" and w: "w = Radio i (please_select # display_strings 0 ?ps) k"
    by auto
  have perm: "mset ?ps = mset (original_options row)"
    using cached by (simp add: mset_shuffle split: option.splits)
  from mset_original_codes [OF perm] have codes:
    "mset (map fst ?ps) = mset [''A'', ''B'', ''C'', ''D'', ''E'']" and len: "length ?ps \<le> 191"
    by simp_all
  show ?thesis
    using m' w perm codes display_options_distinct [OF len] display_options_inverse [OF len]
      display_options_placeholder_unmapped [of ?ps]
    by (intro exI [of _ ?ps] exI [of _ k]) simp
qed

theorem shuffled_options_permutation_witness:
  "\<exists>k. fst (fst (render_question (\<lambda>_. None) 0 example_row (Map.empty, fresh_session, zero_rng))) 0
         = Some [(''B'', ''Plan''), (''C'', ''Joke''), (''D'', ''Scheme''), (''E'', ''Endure''), (''A'', ''Fight'')]
     \<and> mset [(''B'', ''Plan''), (''C'', ''Joke''), (''D'', ''Scheme''), (''E'', ''Endure''), (''A'', ''Fight'')]
         = mset (original_options example_row)
     \<and> snd (snd (render_question (\<lambda>_. None) 0 example_row (Map.empty, fresh_session, zero_rng)))
         = Radio 0 (please_select # display_strings 0
             [(''B'', ''Plan''), (''C'', ''Joke''), (''D'', ''Scheme''), (''E'', ''Endure''), (''A'', ''Fight'')]) k
     \<and> map (snd (display_options
             [(''B'', ''Plan''), (''C'', ''Joke''), (''D'', ''Scheme''), (''E'', ''Endure''), (''A'', ''Fight'')]))
           (display_strings 0
             [(''B'', ''Plan''), (''C'', ''Joke''), (''D'', ''Scheme''), (''E'', ''Endure''), (''A'', ''Fight'')])
         = [Some ''B'', Some ''C'', Some ''D'', Some ''E'', Some ''A'']"
proof -
  let ?R = "render_question (\<lambda>_. None) 0 example_row (Map.empty, fresh_session, zero_rng)"
  let ?ps = "[(''B'', ''Plan''), (''C'', ''Joke''), (''D'', ''Scheme''), (''E'', ''Endure''), (''A'', ''Fight'')]"
  have r: "?R = ((fst (fst ?R), fst (snd (fst ?R)), snd (snd (fst ?R))), fst (snd ?R), snd (snd ?R))"
    by simp
  have cached: "case (Map.empty :: nat \<rightharpoonup> (string \<times> string) list) 0 of None \<Rightarrow> True
      | Some ps \<Rightarrow> mset ps = mset (original_options example_row)"
    by simp
  have m: "fst (fst ?R) 0 = Some ?ps" by code_simp
  from shuffled_options_permutation [OF cached r] obtain option_pairs k where
    h: "fst (fst ?R) 0 = Some option_pairs"
      "mset option_pairs = mset (original_options example_row)"
      "snd (snd ?R) = Radio 0 (please_select # display_strings 0 option_pairs) k"
      "map (snd (display_options option_pairs)) (display_strings 0 option_pairs)
         = map (Some \<circ> fst) option_pairs"
    by blast
  from h(1) m have "option_pairs = ?ps" by simp
  with h m show ?thesis by auto
qed

subsection \<open>The render loop\<close>

lemma render_question_frame:
  "render_question pk i row (m, s, g) = ((m', s', g'), coded_answer, w) \<Longrightarrow>
     quiz_submitted s' = quiz_submitted s \<and> user_name_input s' = user_name_input s \<and>
     shuffled_questions_df s' = shuffled_questions_df s \<and>
     shuffled_options_map s' = shuffled_options_map s \<and>
     predicted_character s' = predicted_character s \<and>
     user_name_display s' = user_name_display s"
  by (auto simp: render_question_def Let_def split_beta)

lemma render_loop_append:
  "render_loop pk i (xs @ ys) acc = render_loop pk (i + length xs) ys (render_loop pk i xs acc)"
proof (induction xs arbitrary: i acc)
  case Nil
  then show ?case by simp
next
  case (Cons x xs)
  obtain st ans c out where acc: "acc = (st, ans, c, out)" by (cases acc)
  show ?case by (simp add: acc Let_def split_beta Cons.IH)
qed

lemma render_loop_frame:
  "render_loop pk i qs ((m, s, g), ans, c, out) = ((m', s', g'), ans', c', out') \<Longrightarrow>
     quiz_submitted s' = quiz_submitted s \<and> user_name_input s' = user_name_input s \<and>
     shuffled_questions_df s' = shuffled_questions_df s \<and>
     shuffled_options_map s' = shuffled_options_map s \<and>
     predicted_character s' = predicted_character s \<and>
     user_name_display s' = user_name_display s"
proof (induction qs arbitrary: i m s g ans c out)
  case Nil
  then show ?case by simp
next
  case (Cons row qs)
  obtain m1 s1 g1 a1 w1 where q: "render_question pk i row (m, s, g) = ((m1, s1, g1), a1, w1)"
    by (metis prod.collapse)
  from Cons.prems have
    "render_loop pk (Suc i) qs ((m1, s1, g1), ans @ [a1], (if a1 = INVALID then False else c), out @ [w1])
       = ((m', s', g'), ans', c', out')"
    by (simp add: q)
  from Cons.IH [OF this] render_question_frame [OF q] show ?case by simp
qed

lemma render_loop_outside:
  "render_loop pk i qs ((m, s, g), ans, c, out) = ((m', s', g'), ans', c', out') \<Longrightarrow>
     j < i \<Longrightarrow> m' j = m j \<and> quiz_selections_display s' j = quiz_selections_display s j"
proof (induction qs arbitrary: i m s g ans c out)
  case Nil
  then show ?case by simp
next
  case (Cons row qs)
  obtain m1 s1 g1 a1 w1 where q: "render_question pk i row (m, s, g) = ((m1, s1, g1), a1, w1)"
    by (metis prod.collapse)
  from Cons.prems have
    "render_loop pk (Suc i) qs ((m1, s1, g1), ans @ [a1], (if a1 = INVALID then False else c), out @ [w1])
       = ((m', s', g'), ans', c', out')"
    by (simp add: q)
  from Cons.IH [OF this] Cons.prems(2) have
    "m' j = m1 j \<and> quiz_selections_display s' j = quiz_selections_display s1 j" by simp
  moreover from render_question_parts [OF q] Cons.prems(2) have
    "m1 j = m j \<and> quiz_selections_display s1 j = quiz_selections_display s j" by auto
  ultimately show ?case by simp
qed

lemma render_loop_cache_kept:
  "render_loop pk i qs ((m, s, g), ans, c, out) = ((m', s', g'), ans', c', out') \<Longrightarrow>
     m j = Some ps \<Longrightarrow> m' j = Some ps"
proof (induction qs arbitrary: i m s g ans c out)
  case Nil
  then show ?case by simp
next
  case (Cons row qs)
  obtain m1 s1 g1 a1 w1 where q: "render_question pk i row (m, s, g) = ((m1, s1, g1), a1, w1)"
    by (metis prod.collapse)
  from Cons.prems have l:
    "render_loop pk (Suc i) qs ((m1, s1, g1), ans @ [a1], (if a1 = INVALID then False else c), out @ [w1])
       = ((m', s', g'), ans', c', out')"
    by (simp add: q)
  from render_question_parts [OF q] Cons.prems(2) have "m1 j = Some ps"
    by (auto split: option.splits)
  from Cons.IH [OF l this] show ?case .
qed

lemma render_loop_lists:
  "render_loop pk i qs ((m, s, g), ans, c, out) = ((m', s', g'), ans', c', out') \<Longrightarrow>
     \<exists>as ws. ans' = ans @ as \<and> out' = out @ ws \<and> length as = length qs \<and>
       length ws = length qs \<and> c' = (c \<and> INVALID \<notin> set as)"
proof (induction qs arbitrary: i m s g ans c out)
  case Nil
  then show ?case by simp
next
  case (Cons row qs)
  obtain m1 s1 g1 a1 w1 where q: "render_question pk i row (m, s, g) = ((m1, s1, g1), a1, w1)"
    by (metis prod.collapse)
  from Cons.prems have l:
    "render_loop pk (Suc i) qs ((m1, s1, g1), ans @ [a1], (if a1 = INVALID then False else c), out @ [w1])
       = ((m', s', g'), ans', c', out')"
    by (simp add: q)
  from Cons.IH [OF l] obtain as ws where
    "ans' = (ans @ [a1]) @ as" "out' = (out @ [w1]) @ ws" "length as = length qs"
    "length ws = length qs" "c' = ((if a1 = INVALID then False else c) \<and> INVALID \<notin> set as)"
    by blast
  then show ?case
    by (intro exI [of _ "a1 # as"] exI [of _ "w1 # ws"]) auto
qed


lemma current_selection_index_in_range:
  "opts \<noteq> [] \<Longrightarrow> current_selection_index opts v < length opts"
  using current_selection_index_found [of v opts] current_selection_index_missing [of v opts]
  by (cases "v \<in> set opts") auto

lemma radio_in_options: "index < length opts \<Longrightarrow> radio opts index p \<in> set opts"
  by (simp add: radio_def split: option.splits)

lemma render_question_selected:
  assumes "render_question pk i row (m, s, g) = ((m', s', g'), coded_answer, w)"
  shows "\<exists>ps k sel. m' i = Some ps \<and>
      ps = (case m i of None \<Rightarrow> fst (shuffle (original_options row) g) | Some ps0 \<Rightarrow> ps0) \<and>
      w = Radio i (please_select # display_strings 0 ps) k \<and>
      quiz_selections_display s' i = Some sel \<and>
      sel \<in> set (please_select # display_strings 0 ps) \<and>
      coded_answer = coded ps sel"
proof -
  let ?ps = "case m i of None \<Rightarrow> fst (shuffle (original_options row) g) | Some ps0 \<Rightarrow> ps0"
  let ?opts = "please_select # display_strings 0 ?ps"
  let ?k = "current_selection_index ?opts
              (case quiz_selections_display s i of Some v \<Rightarrow> v | None \<Rightarrow> please_select)"
  let ?sel = "radio ?opts ?k (pk i)"
  have "?k < length ?opts" by (rule current_selection_index_in_range) simp
  then have "?sel \<in> set ?opts" by (rule radio_in_options)
  with render_question_parts [OF assms] show ?thesis
    by (intro exI [of _ ?ps] exI [of _ ?k] exI [of _ ?sel]) (simp add: coded_def Let_def)
qed

lemma render_loop_at:
  assumes "render_loop pk i qs ((m, s, g), ans, c, out) = ((m', s', g'), ans', c', out')"
      and "n < length qs"
  shows "\<exists>ps k sel. m' (i + n) = Some ps \<and>
      (case m (i + n) of
         Some ps0 \<Rightarrow> ps = ps0
       | None \<Rightarrow> (\<exists>g0. ps = fst (shuffle (original_options (qs ! n)) g0))) \<and>
      out' ! (length out + n) = Radio (i + n) (please_select # display_strings 0 ps) k \<and>
      quiz_selections_display s' (i + n) = Some sel \<and>
      sel \<in> set (please_select # display_strings 0 ps) \<and>
      ans' ! (length ans + n) = coded ps sel"
  using assms
proof (induction qs arbitrary: i n m s g ans c out)
  case Nil
  then show ?case by simp
next
  case (Cons row qs)
  obtain m1 s1 g1 a1 w1 where q: "render_question pk i row (m, s, g) = ((m1, s1, g1), a1, w1)"
    by (metis prod.collapse)
  from Cons.prems have l:
    "render_loop pk (Suc i) qs ((m1, s1, g1), ans @ [a1], (if a1 = INVALID then False else c), out @ [w1])
       = ((m', s', g'), ans', c', out')"
    by (simp add: q)
  from render_loop_lists [OF l] obtain as ws where lists:
    "ans' = (ans @ [a1]) @ as" "out' = (out @ [w1]) @ ws" by blast
  show ?case
  proof (cases n)
    case 0
    from render_question_selected [OF q] obtain ps k sel where h:
      "m1 i = Some ps"
      "ps = (case m i of None \<Rightarrow> fst (shuffle (original_options row) g) | Some ps0 \<Rightarrow> ps0)"
      "w1 = Radio i (please_select # display_strings 0 ps) k"
      "quiz_selections_display s1 i = Some sel"
      "sel \<in> set (please_select # display_strings 0 ps)"
      "a1 = coded ps sel"
      by blast
    from render_loop_outside [OF l, of i] h(1,4) have kept:
      "m' i = Some ps" "quiz_selections_display s' i = Some sel" by simp_all
    have src: "case m (i + n) of Some ps0 \<Rightarrow> ps = ps0
       | None \<Rightarrow> (\<exists>g0. ps = fst (shuffle (original_options ((row # qs) ! n)) g0))"
      using h(2) by (auto simp: 0 split: option.splits)
    from kept h(3,5,6) lists have
      "m' (i + n) = Some ps"
      "out' ! (length out + n) = Radio (i + n) (please_select # display_strings 0 ps) k"
      "quiz_selections_display s' (i + n) = Some sel"
      "sel \<in> set (please_select # display_strings 0 ps)"
      "ans' ! (length ans + n) = coded ps sel"
      by (simp_all add: 0 nth_append)
    with src show ?thesis by blast
  next
    case (Suc n')
    with Cons.prems(2) have n': "n' < length qs" by simp
    from Cons.IH [OF l n'] obtain ps k sel where h:
      "m' (Suc i + n') = Some ps"
      "case m1 (Suc i + n') of Some ps0 \<Rightarrow> ps = ps0
       | None \<Rightarrow> (\<exists>g0. ps = fst (shuffle (original_options (qs ! n')) g0))"
      "out' ! (length (out @ [w1]) + n') = Radio (Suc i + n') (please_select # display_strings 0 ps) k"
      "quiz_selections_display s' (Suc i + n') = Some sel"
      "sel \<in> set (please_select # display_strings 0 ps)"
      "ans' ! (length (ans @ [a1]) + n') = coded ps sel"
      by blast
    from render_question_parts [OF q] have "m1 (Suc i + n') = m (Suc i + n')" by auto
    with h(2) have src: "case m (i + n) of Some ps0 \<Rightarrow> ps = ps0
       | None \<Rightarrow> (\<exists>g0. ps = fst (shuffle (original_options ((row # qs) ! n)) g0))"
      by (auto simp: Suc split: option.splits)
    from h(1,3,4,5,6) have
      "m' (i + n) = Some ps"
      "out' ! (length out + n) = Radio (i + n) (please_select # display_strings 0 ps) k"
      "quiz_selections_display s' (i + n) = Some sel"
      "sel \<in> set (please_select # display_strings 0 ps)"
      "ans' ! (length ans + n) = coded ps sel"
      by (simp_all add: Suc)
    with src show ?thesis by blast
  qed
qed

subsection \<open>Incomplete submissions\<close>

lemma shuffling_logic_unsubmitted:
  assumes "\<not> quiz_submitted s"
      and "shuffled_questions_df s = None \<longleftrightarrow> shuffled_options_map s = None"
  shows "\<exists>q m s1 g1. shuffling_logic sample orig (s, g) = Inr (q, m, s1, g1) \<and>
      shuffled_questions_df s1 = Some q \<and> shuffled_options_map s1 = Some m \<and>
      \<not> quiz_submitted s1 \<and> user_name_input s1 = user_name_input s \<and>
      quiz_selections_display s1 = quiz_selections_display s \<and>
      predicted_character s1 = predicted_character s \<and>
      user_name_display s1 = user_name_display s \<and> q_mapping s1 = q_mapping s \<and>
      (case shuffled_questions_df s of
         Some q0 \<Rightarrow> q = q0 \<and> shuffled_options_map s = Some m \<and> s1 = s \<and> g1 = g
       | None \<Rightarrow> q = sample (fst (randint 0 10000 g)) orig \<and> m = Map.empty \<and>
           g1 = snd (randint 0 10000 g))"
  using assms
  by (cases "shuffled_questions_df s"; cases "shuffled_options_map s")
     (auto simp: shuffling_logic_def Let_def split_beta)

lemma render_loop_widgets:
  assumes "render_loop pk 0 qs ((m, s, g), [], True, []) = ((m', s', g'), ans, c, out)"
  shows "length out = length qs \<and> length ans = length qs \<and> c = (INVALID \<notin> set ans) \<and>
     (\<forall>n < length qs. \<exists>ps k. m' n = Some ps \<and> out ! n = Radio n (please_select # display_strings 0 ps) k)"
proof -
  from render_loop_lists [OF assms] have l: "length out = length qs" "length ans = length qs"
    "c = (INVALID \<notin> set ans)" by auto
  have "\<exists>ps k. m' n = Some ps \<and> out ! n = Radio n (please_select # display_strings 0 ps) k"
    if "n < length qs" for n
    using render_loop_at [OF assms that] by auto
  with l show ?thesis by blast
qed

lemma render_loop_no_predict:
  assumes "render_loop pk 0 qs ((m, s, g), [], True, []) = ((m', s', g'), ans, c, out)"
  shows "Predict x \<notin> set out \<and> Error e \<notin> set out \<and> Warning e \<notin> set out \<and> Success e \<notin> set out"
proof -
  from render_loop_widgets [OF assms] have
    "\<forall>n < length out. \<exists>opts k. out ! n = Radio n opts k" by auto
  then show ?thesis by (fastforce simp: in_set_conv_nth)
qed

lemma coded_placeholder: "coded ps please_select = INVALID"
  by (simp add: coded_def)

text \<open>
  C5. A run of the script on an unsubmitted session with a name, in which the submit button
  is pressed and after which some displayed question holds the placeholder as its
  selection, shows the warning that asks to answer all questions, calls the classifier not
  at all, shows no error, leaves the workbook file as it was, and leaves the session
  unsubmitted with the predicted character it had.
\<close>

theorem incomplete_submission_rejected:
  assumes run: "run_script sample orig res env (s, file, g) = ((s', file', g'), out, ctl)"
      and unsubmitted: "\<not> quiz_submitted s" and named: "user_name_input s \<noteq> []"
      and clicked: "submit_clicked env"
      and consistent: "shuffled_questions_df s = None \<longleftrightarrow> shuffled_options_map s = None"
      and shown: "shuffled_questions_df s' = Some qdf" and i: "i < length qdf"
      and unanswered: "quiz_selections_display s' i = Some please_select"
  shows "Warning ''Please answer all questions before submitting!'' \<in> set out \<and>
     (\<forall>x. Predict x \<notin> set out) \<and> (\<forall>e. Error e \<notin> set out) \<and> file' = file \<and>
     \<not> quiz_submitted s' \<and> predicted_character s' = predicted_character s \<and> ctl = Completed"
proof -
  from shuffling_logic_unsubmitted [OF unsubmitted consistent, of sample orig g]
  obtain q m s1 g1 where sh: "shuffling_logic sample orig (s, g) = Inr (q, m, s1, g1)"
    and s1: "shuffled_questions_df s1 = Some q" "\<not> quiz_submitted s1"
      "user_name_input s1 = user_name_input s" "predicted_character s1 = predicted_character s"
    by blast
  obtain m2 s2 g2 ans c ws where
    loop: "render_loop (pick env) 0 q ((m, s1, g1), [], True, []) = ((m2, s2, g2), ans, c, ws)"
    by (metis prod.collapse)
  let ?s2 = "s2\<lparr>shuffled_options_map := Some m2\<rparr>"
  from run sh s1 named clicked loop have sub:
    "(let ((s3, file'), shown, ctl) = submit res (fs env) (user_name_input s) ans c (?s2, file)
      in ((s3, file', g2), ws @ shown, ctl)) = ((s', file', g'), out, ctl)"
    by (simp add: run_script_def quiz_form_def Let_def)
  note fr = render_loop_frame [OF loop]
  show ?thesis
  proof (cases c)
    case False
    with sub have res: "s' = ?s2" "file' = file" "ctl = Completed"
      "out = ws @ [Warning ''Please answer all questions before submitting!'']"
      by (auto simp: submit_def)
    with render_loop_no_predict [OF loop] fr s1 show ?thesis by auto
  next
    case True
    with render_loop_widgets [OF loop] have complete: "INVALID \<notin> set ans" "length ans = length q"
      by auto
    have unchanged: "shuffled_questions_df s' = Some q \<and> quiz_selections_display s' = quiz_selections_display s2"
      using sub True fr s1
      by (auto simp: submit_def Let_def split_beta split: sum.splits if_splits)
    with shown i have iq: "i < length q" by simp
    from render_loop_at [OF loop iq] obtain ps sel where
      "quiz_selections_display s2 i = Some sel" "ans ! i = coded ps sel" by auto
    with unanswered unchanged have "ans ! i = INVALID" by (simp add: coded_placeholder)
    with complete iq have False by (metis nth_mem)
    then show ?thesis ..
  qed
qed

theorem incomplete_submission_rejected_witness:
  "shuffled_questions_df (fst (fst (run_script (\<lambda>seed. rev) example_questions example_resources
       (example_env (\<lambda>_. None) Io_ok) (named_session, example_workbook, zero_rng))))
     = Some (rev example_questions)
   \<and> quiz_selections_display (fst (fst (run_script (\<lambda>seed. rev) example_questions
       example_resources (example_env (\<lambda>_. None) Io_ok)
       (named_session, example_workbook, zero_rng)))) 0 = Some please_select
   \<and> Warning ''Please answer all questions before submitting!''
       \<in> set (fst (snd (run_script (\<lambda>seed. rev) example_questions example_resources
             (example_env (\<lambda>_. None) Io_ok) (named_session, example_workbook, zero_rng))))
   \<and> (\<forall>x. Predict x \<notin> set (fst (snd (run_script (\<lambda>seed. rev) example_questions
             example_resources (example_env (\<lambda>_. None) Io_ok)
             (named_session, example_workbook, zero_rng)))))
   \<and> fst (snd (fst (run_script (\<lambda>seed. rev) example_questions example_resources
       (example_env (\<lambda>_. None) Io_ok) (named_session, example_workbook, zero_rng))))
     = example_workbook"
proof -
  let ?env = "example_env (\<lambda>_. None) Io_ok"
  let ?R = "run_script (\<lambda>seed. rev) example_questions example_resources ?env
              (named_session, example_workbook, zero_rng)"
  have run: "?R = ((fst (fst ?R), fst (snd (fst ?R)), snd (snd (fst ?R))), fst (snd ?R), snd (snd ?R))"
    by simp
  have h1: "\<not> quiz_submitted named_session" by (simp add: named_session_def fresh_session_def)
  have h2: "user_name_input named_session \<noteq> []" by (simp add: named_session_def)
  have h3: "submit_clicked ?env" by (simp add: example_env_def)
  have h4: "shuffled_questions_df named_session = None \<longleftrightarrow> shuffled_options_map named_session = None"
    by (simp add: named_session_def fresh_session_def)
  have h5: "shuffled_questions_df (fst (fst ?R)) = Some (rev example_questions)" by code_simp
  have h6: "0 < length (rev example_questions)" by (simp add: example_questions_def)
  have h7: "quiz_selections_display (fst (fst ?R)) 0 = Some please_select" by code_simp
  from incomplete_submission_rejected [OF run h1 h2 h3 h4 h5 h6 h7] h5 h7
  show ?thesis by blast
qed

subsection \<open>The option order is generated once\<close>

lemma encode_loop_error:
  "encode_loop les zs enc = Inl err \<Longrightarrow> \<exists>msg. err = Error msg"
  by (induction les zs enc rule: encode_loop.induct) (auto split: option.splits)

lemma update_user_submissions_shown:
  "\<forall>e \<in> set (snd (snd (update_user_submissions io file df))). \<exists>msg. e = Error msg"
  by (auto simp: update_user_submissions_def Let_def split: io.splits option.splits)

lemma update_user_submissions_no_radio:
  "Radio i opts k \<notin> set (snd (snd (update_user_submissions io file df)))"
  using update_user_submissions_shown by fastforce

lemma submit_session:
  assumes "submit res io name ans c (s, file) = ((s3, file'), shown, ctl)"
  shows "(s3 = s \<and> ctl \<noteq> Rerun \<or>
          (\<exists>ch. s3 = s\<lparr>quiz_submitted := True, predicted_character := Some ch,
                          user_name_display := Some name\<rparr> \<and> ctl = Rerun))
         \<and> (\<forall>i opts k. Radio i opts k \<notin> set shown)"
  using assms
  by (auto simp: submit_def Let_def split_beta unexpected_def update_user_submissions_no_radio
           split: if_splits sum.splits dest!: encode_loop_error)


lemma shuffling_logic_kept:
  assumes "shuffled_questions_df s = Some q"
  shows "shuffling_logic sample orig (s, g) =
     (case shuffled_options_map s of Some m \<Rightarrow> Inr (q, m, s, g) | None \<Rightarrow> Inl ''AttributeError'')"
  using assms by (simp add: shuffling_logic_def split: option.splits)

lemma results_view_no_radio: "Radio i opts k \<notin> set (fst (results_view env s))"
  by (auto simp: results_view_def Let_def split: option.splits)

lemma run_script_Inl:
  "shuffling_logic sample orig (s, g) = Inl e \<Longrightarrow>
     run_script sample orig res env (s, file, g) = ((s, file, g), [], Uncaught e)"
  by (simp add: run_script_def)

lemma run_script_Inr:
  "shuffling_logic sample orig (s, g) = Inr (q, m, s1, g1) \<Longrightarrow>
     run_script sample orig res env (s, file, g) =
       (if \<not> quiz_submitted s1 then quiz_form res env q m (s1, file, g1)
        else ((s1, file, g1), fst (results_view env s1), snd (results_view env s1)))"
  by (simp add: run_script_def split_beta)

lemma quiz_form_unnamed:
  "user_name_input s = [] \<Longrightarrow>
     quiz_form res env q m (s, file, g) =
       ((s, file, g), [Info ''Please enter your name to start the quiz!''], Completed)"
  by (simp add: quiz_form_def)

lemma quiz_form_named:
  assumes "user_name_input s \<noteq> []"
      and "render_loop (pick env) 0 q ((m, s, g), [], True, []) = ((m2, s2, g2), ans, c, ws)"
  shows "quiz_form res env q m (s, file, g) =
     (if submit_clicked env
      then ((fst (fst (submit res (fs env) (user_name_input s) ans c
                        (s2\<lparr>shuffled_options_map := Some m2\<rparr>, file))),
             snd (fst (submit res (fs env) (user_name_input s) ans c
                        (s2\<lparr>shuffled_options_map := Some m2\<rparr>, file))), g2),
            ws @ fst (snd (submit res (fs env) (user_name_input s) ans c
                        (s2\<lparr>shuffled_options_map := Some m2\<rparr>, file))),
            snd (snd (submit res (fs env) (user_name_input s) ans c
                        (s2\<lparr>shuffled_options_map := Some m2\<rparr>, file))))
      else ((s2\<lparr>shuffled_options_map := Some m2\<rparr>, file, g2), ws, Completed))"
  using assms by (simp add: quiz_form_def Let_def split_beta)

text \<open>What a run that renders the questions leaves behind and emits.\<close>

lemma run_script_form:
  assumes run: "run_script sample orig res env (s, file, g) = ((s', file', g'), out, ctl)"
      and sh: "shuffling_logic sample orig (s, g) = Inr (q, m, s1, g1)"
      and form: "\<not> quiz_submitted s1" "user_name_input s1 \<noteq> []"
      and loop: "render_loop (pick env) 0 q ((m, s1, g1), [], True, []) = ((m2, s2, g2), ans, c, ws)"
  shows "\<exists>out3. out = ws @ out3 \<and> (\<forall>j opts k. Radio j opts k \<notin> set out3) \<and>
      shuffled_questions_df s' = shuffled_questions_df s1 \<and>
      shuffled_options_map s' = Some m2 \<and>
      quiz_selections_display s' = quiz_selections_display s2 \<and> g' = g2"
proof (cases "submit_clicked env")
  case False
  with run run_script_Inr [OF sh] form quiz_form_named [OF form(2) loop]
  have "s' = s2\<lparr>shuffled_options_map := Some m2\<rparr>" "out = ws @ []" "g' = g2"
    by simp_all
  with render_loop_frame [OF loop] show ?thesis by simp
next
  case True
  let ?s2 = "s2\<lparr>shuffled_options_map := Some m2\<rparr>"
  obtain s3 f3 sh3 c3 where
    sub: "submit res (fs env) (user_name_input s1) ans c (?s2, file) = ((s3, f3), sh3, c3)"
    by (metis prod.collapse)
  with True run run_script_Inr [OF sh] form quiz_form_named [OF form(2) loop]
  have r: "s' = s3" "out = ws @ sh3" "g' = g2" by simp_all
  from submit_session [OF sub] have
    "shuffled_questions_df s3 = shuffled_questions_df ?s2"
    "shuffled_options_map s3 = shuffled_options_map ?s2"
    "quiz_selections_display s3 = quiz_selections_display ?s2"
    "\<forall>j opts k. Radio j opts k \<notin> set sh3"
    by auto
  with r render_loop_frame [OF loop] show ?thesis by simp
qed

lemma run_script_no_form:
  assumes run: "run_script sample orig res env (s, file, g) = ((s', file', g'), out, ctl)"
      and sh: "shuffling_logic sample orig (s, g) = Inr (q, m, s1, g1)"
      and no_form: "quiz_submitted s1 \<or> user_name_input s1 = []"
  shows "s' = s1 \<and> file' = file \<and> g' = g1 \<and> (\<forall>j opts k. Radio j opts k \<notin> set out)"
proof (cases "quiz_submitted s1")
  case True
  with run run_script_Inr [OF sh, of res env "file"] results_view_no_radio [of _ _ _ env s1]
  show ?thesis by auto
next
  case False
  with no_form have "user_name_input s1 = []" by simp
  with False run run_script_Inr [OF sh, of res env "file"] show ?thesis
    by (auto simp: quiz_form_unnamed)
qed

lemma render_loop_radio:
  assumes loop: "render_loop pk 0 q ((m, s, g), [], True, []) = ((m2, s2, g2), ans, c, ws)"
      and "Radio i opts k \<in> set ws"
  shows "\<exists>ps. m2 i = Some ps \<and> opts = please_select # display_strings 0 ps"
proof -
  from assms(2) obtain n where n: "n < length ws" "ws ! n = Radio i opts k"
    by (auto simp: in_set_conv_nth)
  with render_loop_widgets [OF loop] obtain ps k' where
    "m2 n = Some ps" "ws ! n = Radio n (please_select # display_strings 0 ps) k'"
    by auto
  with n show ?thesis by auto
qed

lemma run_script_rendered:
  assumes run: "run_script sample orig res env (s, file, g) = ((s', file', g'), out, ctl)"
      and shown: "Radio i opts k \<in> set out"
  shows "\<exists>q m ps. shuffled_questions_df s' = Some q \<and> shuffled_options_map s' = Some m \<and>
      m i = Some ps \<and> opts = please_select # display_strings 0 ps"
proof (cases "shuffling_logic sample orig (s, g)")
  case (Inl e)
  with run shown show ?thesis by (simp add: run_script_def)
next
  case (Inr r)
  then obtain q m s1 g1 where sh: "shuffling_logic sample orig (s, g) = Inr (q, m, s1, g1)"
    by (cases r) auto
  then have s1: "shuffled_questions_df s1 = Some q"
    by (auto simp: shuffling_logic_def Let_def split_beta split: if_splits option.splits)
  show ?thesis
  proof (cases "quiz_submitted s1 \<or> user_name_input s1 = []")
    case True
    from run_script_no_form [OF run sh True] shown show ?thesis by simp
  next
    case False
    obtain m2 s2 g2 ans c ws where
      loop: "render_loop (pick env) 0 q ((m, s1, g1), [], True, []) = ((m2, s2, g2), ans, c, ws)"
      by (metis prod.collapse)
    from False have form: "\<not> quiz_submitted s1" "user_name_input s1 \<noteq> []" by simp_all
    from run_script_form [OF run sh form loop] obtain out3 where
      h: "out = ws @ out3" "\<forall>j opts k. Radio j opts k \<notin> set out3"
        "shuffled_questions_df s' = shuffled_questions_df s1" "shuffled_options_map s' = Some m2"
      by blast
    with shown have "Radio i opts k \<in> set ws" by simp
    from render_loop_radio [OF loop this] h s1 show ?thesis by simp
  qed
qed

lemma run_script_cache_kept:
  assumes run: "run_script sample orig res env (s, file, g) = ((s', file', g'), out, ctl)"
      and q: "shuffled_questions_df s = Some q"
      and m: "shuffled_options_map s = Some m"
      and ps: "m i = Some ps"
  shows "shuffled_questions_df s' = Some q \<and>
     (\<exists>m'. shuffled_options_map s' = Some m' \<and> m' i = Some ps) \<and>
     (\<forall>opts k. Radio i opts k \<in> set out \<longrightarrow> opts = please_select # display_strings 0 ps)"
proof -
  from shuffling_logic_kept [OF q] m have
    sh: "shuffling_logic sample orig (s, g) = Inr (q, m, s, g)" by simp
  show ?thesis
  proof (cases "quiz_submitted s \<or> user_name_input s = []")
    case True
    from run_script_no_form [OF run sh True] q m ps show ?thesis by simp
  next
    case False
    obtain m2 s2 g2 ans c ws where
      loop: "render_loop (pick env) 0 q ((m, s, g), [], True, []) = ((m2, s2, g2), ans, c, ws)"
      by (metis prod.collapse)
    from False have form: "\<not> quiz_submitted s" "user_name_input s \<noteq> []" by simp_all
    from run_script_form [OF run sh form loop] obtain out3 where
      h: "out = ws @ out3" "\<forall>j opts k. Radio j opts k \<notin> set out3"
        "shuffled_questions_df s' = shuffled_questions_df s" "shuffled_options_map s' = Some m2"
      by blast
    from render_loop_cache_kept [OF loop ps] have m2: "m2 i = Some ps" .
    have "opts = please_select # display_strings 0 ps" if "Radio i opts k \<in> set out" for opts k
    proof -
      from that h have "Radio i opts k \<in> set ws" by simp
      from render_loop_radio [OF loop this] m2 show ?thesis by simp
    qed
    with h q m2 show ?thesis by simp
  qed
qed


lemma reruns_cache_kept:
  assumes "reruns sample orig res steps s = (s', outs)"
      and "shuffled_questions_df s = Some q"
      and "shuffled_options_map s = Some m"
      and "m i = Some ps"
  shows "shuffled_questions_df s' = Some q \<and>
     (\<exists>m'. shuffled_options_map s' = Some m' \<and> m' i = Some ps) \<and>
     (\<forall>out \<in> set outs. \<forall>opts k. Radio i opts k \<in> set out \<longrightarrow>
         opts = please_select # display_strings 0 ps)"
  using assms
proof (induction steps arbitrary: s m outs)
  case Nil
  then show ?case by simp
next
  case (Cons step steps)
  obtain env name f g where step: "step = (env, name, f, g)" by (cases step)
  let ?s = "s\<lparr>user_name_input := name\<rparr>"
  obtain s1 f1 g1 out ctl where
    run: "run_script sample orig res env (?s, f, g) = ((s1, f1, g1), out, ctl)"
    by (metis prod.collapse)
  obtain s2 outs2 where rest: "reruns sample orig res steps s1 = (s2, outs2)"
    by (metis prod.collapse)
  from Cons.prems(1) step run rest have fin: "s' = s2" "outs = out # outs2" by simp_all
  from Cons.prems have "shuffled_questions_df ?s = Some q" "shuffled_options_map ?s = Some m"
    by simp_all
  from run_script_cache_kept [OF run this Cons.prems(4)] obtain m1 where one:
    "shuffled_questions_df s1 = Some q" "shuffled_options_map s1 = Some m1" "m1 i = Some ps"
    "\<forall>opts k. Radio i opts k \<in> set out \<longrightarrow> opts = please_select # display_strings 0 ps"
    by blast
  from rest fin have "reruns sample orig res steps s1 = (s', outs2)" by simp
  from Cons.IH [OF this one(1-3)] one(4) fin show ?case by simp
qed

text \<open>
  C4. Once a run of the script has shown question \<open>i\<close> with the option list \<open>opts\<close>,
  the order behind that list is in the session's cache, and after any number of further
  runs of the script without a reset (whatever the user picks or types, whatever the
  random generator and the workbook file do) the cache still holds the same order for
  \<open>i\<close>, the question order is the same, and every radio widget shown for \<open>i\<close> has
  exactly the option list \<open>opts\<close>, labels included.
\<close>

theorem option_order_frozen:
  assumes first: "run_script sample orig res env (s0, file0, g0) = ((s, file1, g1), out0, ctl0)"
      and generated: "Radio i opts k \<in> set out0"
      and later: "reruns sample orig res steps s = (s', outs)"
  shows "\<exists>m m' ps. shuffled_options_map s = Some m \<and> m i = Some ps \<and>
      opts = please_select # display_strings 0 ps \<and>
      shuffled_options_map s' = Some m' \<and> m' i = Some ps \<and>
      shuffled_questions_df s' = shuffled_questions_df s \<and>
      (\<forall>out \<in> set outs. \<forall>opts' k'. Radio i opts' k' \<in> set out \<longrightarrow> opts' = opts)"
proof -
  from run_script_rendered [OF first generated] obtain q m ps where
    h: "shuffled_questions_df s = Some q" "shuffled_options_map s = Some m" "m i = Some ps"
      "opts = please_select # display_strings 0 ps"
    by blast
  from reruns_cache_kept [OF later h(1-3)] h show ?thesis by auto
qed

theorem option_order_frozen_witness:
  "Radio 0 [''--- Please Select ---'', ''A. Plan'', ''B. Joke'', ''C. Scheme'', ''D. Endure'',
            ''E. Fight''] 0
     \<in> set (fst (snd (run_script (\<lambda>seed qs. qs) [example_row] example_resources
              ((example_env (\<lambda>_. None) Io_ok)\<lparr>submit_clicked := False\<rparr>)
              (named_session, example_workbook, zero_rng))))
   \<and> snd (reruns (\<lambda>seed qs. qs) [example_row] example_resources
        [((example_env (\<lambda>_. Some 2) Io_ok)\<lparr>submit_clicked := False\<rparr>, ''Ann B'', [],
          (\<lambda>n. Suc n))]
        (fst (fst (run_script (\<lambda>seed qs. qs) [example_row] example_resources
              ((example_env (\<lambda>_. None) Io_ok)\<lparr>submit_clicked := False\<rparr>)
              (named_session, example_workbook, zero_rng)))))
     = [[Radio 0 [''--- Please Select ---'', ''A. Plan'', ''B. Joke'', ''C. Scheme'', ''D. Endure'',
            ''E. Fight''] 0]]
   \<and> (\<exists>m m' ps.
        shuffled_options_map (fst (fst (run_script (\<lambda>seed qs. qs) [example_row] example_resources
              ((example_env (\<lambda>_. None) Io_ok)\<lparr>submit_clicked := False\<rparr>)
              (named_session, example_workbook, zero_rng)))) = Some m
        \<and> m 0 = Some ps
        \<and> shuffled_options_map (fst (reruns (\<lambda>seed qs. qs) [example_row] example_resources
             [((example_env (\<lambda>_. Some 2) Io_ok)\<lparr>submit_clicked := False\<rparr>, ''Ann B'', [],
               (\<lambda>n. Suc n))]
             (fst (fst (run_script (\<lambda>seed qs. qs) [example_row] example_resources
               ((example_env (\<lambda>_. None) Io_ok)\<lparr>submit_clicked := False\<rparr>)
               (named_session, example_workbook, zero_rng)))))) = Some m'
        \<and> m' 0 = Some ps)"
proof -
  let ?env = "(example_env (\<lambda>_. None) Io_ok)\<lparr>submit_clicked := False\<rparr>"
  let ?opts = "[''--- Please Select ---'', ''A. Plan'', ''B. Joke'', ''C. Scheme'', ''D. Endure'',
            ''E. Fight'']"
  let ?R = "run_script (\<lambda>seed qs. qs) [example_row] example_resources ?env
              (named_session, example_workbook, zero_rng)"
  let ?steps = "[((example_env (\<lambda>_. Some 2) Io_ok)\<lparr>submit_clicked := False\<rparr>, ''Ann B'', [],
          (\<lambda>n. Suc n))]"
  let ?L = "reruns (\<lambda>seed qs. qs) [example_row] example_resources ?steps (fst (fst ?R))"
  have first: "?R = ((fst (fst ?R), fst (snd (fst ?R)), snd (snd (fst ?R))), fst (snd ?R), snd (snd ?R))"
    by simp
  have generated: "Radio 0 ?opts 0 \<in> set (fst (snd ?R))" by code_simp
  have later: "?L = (fst ?L, snd ?L)" by simp
  have again: "snd ?L = [[Radio 0 ?opts 0]]" by code_simp
  from option_order_frozen [OF first generated later] generated again
  show ?thesis by blast
qed

subsection \<open>An invariant of the session\<close>

text \<open>
  \<open>session_ok\<close> holds in a new session and after a reset, and every run of the script
  preserves it, also when the user retypes the name in between. It gives the hypotheses
  on the session that the theorems on rendering (C10) and on incomplete submissions (C5)
  make.
\<close>

lemma render_loop_beyond:
  "render_loop pk i qs ((m, s, g), ans, c, out) = ((m', s', g'), ans', c', out') \<Longrightarrow>
     i + length qs \<le> j \<Longrightarrow> m' j = m j"
proof (induction qs arbitrary: i m s g ans c out)
  case Nil
  then show ?case by simp
next
  case (Cons row qs)
  obtain m1 s1 g1 a1 w1 where q: "render_question pk i row (m, s, g) = ((m1, s1, g1), a1, w1)"
    by (metis prod.collapse)
  from Cons.prems have l:
    "render_loop pk (Suc i) qs ((m1, s1, g1), ans @ [a1], (if a1 = INVALID then False else c), out @ [w1])
       = ((m', s', g'), ans', c', out')"
    by (simp add: q)
  from Cons.prems(2) have "Suc i + length qs \<le> j" by simp
  from Cons.IH [OF l this] have "m' j = m1 j" .
  moreover from render_question_parts [OF q] Cons.prems(2) have "m1 j = m j" by auto
  ultimately show ?case by simp
qed

lemma render_loop_cache_source:
  assumes loop: "render_loop pk 0 q ((m, s, g), [], True, []) = ((m2, s2, g2), ans, c, ws)"
      and entry: "m2 j = Some ps"
  shows "m j = Some ps \<or> (j < length q \<and> (\<exists>g0. ps = fst (shuffle (original_options (q ! j)) g0)))"
proof (cases "j < length q")
  case True
  from render_loop_at [OF loop True] entry True show ?thesis
    by (auto split: option.splits)
next
  case False
  then have "0 + length q \<le> j" by simp
  from render_loop_beyond [OF loop this] entry show ?thesis by simp
qed

lemma session_ok_fresh: "session_ok fresh_session"
  by (simp add: session_ok_def fresh_session_def)

lemma session_ok_reset: "session_ok (reset_quiz_state s)"
  by (simp add: session_ok_def reset_quiz_state_def)

lemma session_ok_name: "session_ok (s\<lparr>user_name_input := name\<rparr>) = session_ok s"
  by (simp add: session_ok_def split: option.splits)

lemma session_ok_consistent:
  "session_ok s \<Longrightarrow> shuffled_questions_df s = None \<longleftrightarrow> shuffled_options_map s = None"
  by (auto simp: session_ok_def split: option.splits)

lemma session_ok_cached:
  assumes "session_ok s" "shuffled_questions_df s = Some q" "shuffled_options_map s = Some m"
  shows "case m i of None \<Rightarrow> True | Some ps \<Rightarrow> mset ps = mset (original_options (q ! i))"
  using assms by (auto simp: session_ok_def split: option.splits)

lemma shuffling_logic_ok:
  assumes "session_ok s" "shuffling_logic sample orig (s, g) = Inr (q, m, s1, g1)"
  shows "shuffled_questions_df s1 = Some q \<and> shuffled_options_map s1 = Some m \<and>
     (\<forall>i ps. m i = Some ps \<longrightarrow> i < length q \<and> mset ps = mset (original_options (q ! i)))"
  using assms
  by (auto simp: shuffling_logic_def session_ok_def Let_def split_beta
           split: if_splits option.splits)

lemma session_ok_run:
  assumes run: "run_script sample orig res env (s, file, g) = ((s', file', g'), out, ctl)"
      and ok: "session_ok s"
  shows "session_ok s'"
proof (cases "shuffling_logic sample orig (s, g)")
  case (Inl e)
  with run ok show ?thesis by (simp add: run_script_Inl)
next
  case (Inr r)
  then obtain q m s1 g1 where sh: "shuffling_logic sample orig (s, g) = Inr (q, m, s1, g1)"
    by (cases r) auto
  note s1 = shuffling_logic_ok [OF ok sh]
  show ?thesis
  proof (cases "quiz_submitted s1 \<or> user_name_input s1 = []")
    case True
    from run_script_no_form [OF run sh True] s1 show ?thesis
      by (simp add: session_ok_def)
  next
    case False
    then have form: "\<not> quiz_submitted s1" "user_name_input s1 \<noteq> []" by simp_all
    obtain m2 s2 g2 ans c ws where
      loop: "render_loop (pick env) 0 q ((m, s1, g1), [], True, []) = ((m2, s2, g2), ans, c, ws)"
      by (metis prod.collapse)
    from run_script_form [OF run sh form loop] s1 have
      fin: "shuffled_questions_df s' = Some q" "shuffled_options_map s' = Some m2" by auto
    have "i < length q \<and> mset ps = mset (original_options (q ! i))" if "m2 i = Some ps" for i ps
      using render_loop_cache_source [OF loop that] s1 by (auto simp: mset_shuffle)
    with fin show ?thesis by (simp add: session_ok_def)
  qed
qed

subsection \<open>Unseen categories\<close>





subsection \<open>Recording a submission\<close>

lemma cell_at_realign:
  "c \<in> set new_cols \<Longrightarrow> cell_at new_cols (realign cols new_cols row) c = cell_at cols row c"
  by (simp add: realign_def cell_at_def [of new_cols] map_of_zip_map)

lemma realign_same:
  assumes "distinct cols" "length row = length cols"
  shows "realign cols cols row = row"
proof (rule nth_equalityI)
  show "length (realign cols cols row) = length row"
    using assms by (simp add: realign_def)
next
  fix i assume "i < length (realign cols cols row)"
  then have i: "i < length cols" by (simp add: realign_def)
  with assms have "map_of (zip cols row) (cols ! i) = Some (row ! i)"
    by (simp add: map_of_zip_nth)
  with i show "realign cols cols row ! i = row ! i"
    by (simp add: realign_def cell_at_def)
qed

lemma map_of_dict_set: "map_of (dict_set d k v) = (map_of d)(k \<mapsto> v)"
  by (induction d k v rule: dict_set.induct) (auto simp: fun_eq_iff)

lemma filter_dict_set:
  "filter (\<lambda>p. fst p \<noteq> k) (dict_set d k v) = filter (\<lambda>p. fst p \<noteq> k) d"
  by (induction d k v rule: dict_set.induct) auto

lemma keys_dict_set:
  "map fst (dict_set d k v) = (if k \<in> fst ` set d then map fst d else map fst d @ [k])"
  by (induction d k v rule: dict_set.induct) (auto simp: image_iff)

lemma concat_df_rows:
  "length (rows (concat_df a b)) = length (rows a) + length (rows b)"
  by (simp add: concat_df_def Let_def)

lemma concat_df_columns:
  "set (columns (concat_df a b)) = set (columns a) \<union> set (columns b)"
  by (auto simp: concat_df_def Let_def)

lemma concat_df_old_rows:
  assumes "j < length (rows a)" "c \<in> set (columns a)"
  shows "cell_at (columns (concat_df a b)) (rows (concat_df a b) ! j) c
           = cell_at (columns a) (rows a ! j) c"
  using assms by (simp add: concat_df_def Let_def nth_append cell_at_realign)

lemma concat_df_new_rows:
  assumes "j < length (rows b)" "c \<in> set (columns b)"
  shows "cell_at (columns (concat_df a b)) (rows (concat_df a b) ! (length (rows a) + j)) c
           = cell_at (columns b) (rows b ! j) c"
proof -
  let ?cols = "columns a @ filter (\<lambda>c. c \<notin> set (columns a)) (columns b)"
  from assms(2) have "c \<in> set ?cols" by auto
  with assms(1) show ?thesis
    by (simp add: concat_df_def Let_def nth_append cell_at_realign)
qed

lemma concat_df_same_columns:
  assumes "columns a = columns b" "distinct (columns a)"
      and "\<forall>r \<in> set (rows a @ rows b). length r = length (columns a)"
  shows "concat_df a b = \<lparr>columns = columns a, rows = rows a @ rows b\<rparr>"
proof -
  have "filter (\<lambda>c. c \<notin> set (columns a)) (columns b) = []"
    using assms(1) by (simp add: filter_empty_conv)
  moreover have "map (realign (columns a) (columns a)) rs = rs"
    if "\<forall>r \<in> set rs. length r = length (columns a)" for rs
    using that assms(2) by (simp add: map_idI realign_same)
  ultimately show ?thesis
    using assms by (simp add: concat_df_def Let_def)
qed

lemma update_user_submissions_True:
  assumes "update_user_submissions io file new_entry_df = (True, file', shown)"
  shows "shown = [] \<and>
     file' = dict_set (read_excel file) ''user_submissions''
        (concat_df (case map_of (read_excel file) ''user_submissions'' of
                      Some df \<Rightarrow> df
                    | None \<Rightarrow> \<lparr>columns = columns new_entry_df, rows = []\<rparr>) new_entry_df)"
  using assms
  by (auto simp: update_user_submissions_def Let_def split: io.splits)

lemma read_cell_kept: "t \<notin> set na_values \<Longrightarrow> read_cell (Some t) = Some t"
  by (simp add: read_cell_def)

lemma read_cell_marker: "t \<in> set na_values \<Longrightarrow> read_cell (Some t) = None"
  by (simp add: read_cell_def)

lemma map_of_read_excel:
  "map_of (read_excel wb) name = map_option read_sheet (map_of wb name)"
  by (induction wb) (auto simp: read_excel_def)

text \<open>
  What a successful call writes, in terms of the sheets as \<open>pd.read_excel\<close> parses them:
  the sheet \<open>user_submissions\<close> is the parsed old sheet with the entry's rows appended,
  and the other sheets are the parsed sheets in the same order. A cell of the file that
  holds a missing-value marker is therefore written back empty.
\<close>

lemma update_user_submissions_rewrites:
  assumes ok: "update_user_submissions io file new_entry_df = (True, file', shown)"
  shows "\<exists>old new.
      old = (case map_of file ''user_submissions'' of
               Some df \<Rightarrow> read_sheet df
             | None \<Rightarrow> \<lparr>columns = columns new_entry_df, rows = []\<rparr>) \<and>
      map_of file' ''user_submissions'' = Some new \<and>
      length (rows new) = length (rows old) + length (rows new_entry_df) \<and>
      (\<forall>j < length (rows old). \<forall>c \<in> set (columns old).
          cell_at (columns new) (rows new ! j) c = cell_at (columns old) (rows old ! j) c) \<and>
      (\<forall>j < length (rows new_entry_df). \<forall>c \<in> set (columns new_entry_df).
          cell_at (columns new) (rows new ! (length (rows old) + j)) c
            = cell_at (columns new_entry_df) (rows new_entry_df ! j) c) \<and>
      (columns old = columns new_entry_df \<and> distinct (columns old) \<and>
       (\<forall>r \<in> set (rows old @ rows new_entry_df). length r = length (columns old))
         \<longrightarrow> new = \<lparr>columns = columns old, rows = rows old @ rows new_entry_df\<rparr>) \<and>
      filter (\<lambda>p. fst p \<noteq> ''user_submissions'') file'
        = filter (\<lambda>p. fst p \<noteq> ''user_submissions'') (read_excel file) \<and>
      map fst file' =
        (if ''user_submissions'' \<in> fst ` set file then map fst file
         else map fst file @ [''user_submissions''])"
proof -
  let ?old = "case map_of file ''user_submissions'' of
               Some df \<Rightarrow> read_sheet df
             | None \<Rightarrow> \<lparr>columns = columns new_entry_df, rows = []\<rparr>"
  have old: "(case map_of (read_excel file) ''user_submissions'' of
                      Some df \<Rightarrow> df
                    | None \<Rightarrow> \<lparr>columns = columns new_entry_df, rows = []\<rparr>) = ?old"
    by (simp add: map_of_read_excel split: option.splits)
  let ?new = "concat_df ?old new_entry_df"
  let ?sheets' = "dict_set (read_excel file) ''user_submissions'' ?new"
  from update_user_submissions_True [OF ok] old have f': "file' = ?sheets'" by simp
  have names: "map fst (read_excel file) = map fst file"
    by (simp add: read_excel_def split_beta)
  then have names': "fst ` set (read_excel file) = fst ` set file"
    by (metis image_set)
  have a: "map_of ?sheets' ''user_submissions'' = Some ?new"
    by (simp add: map_of_dict_set)
  have b: "length (rows ?new) = length (rows ?old) + length (rows new_entry_df)"
    by (simp add: concat_df_rows)
  have c: "\<forall>j < length (rows ?old). \<forall>c \<in> set (columns ?old).
          cell_at (columns ?new) (rows ?new ! j) c = cell_at (columns ?old) (rows ?old ! j) c"
    by (simp add: concat_df_old_rows)
  have d: "\<forall>j < length (rows new_entry_df). \<forall>c \<in> set (columns new_entry_df).
          cell_at (columns ?new) (rows ?new ! (length (rows ?old) + j)) c
            = cell_at (columns new_entry_df) (rows new_entry_df ! j) c"
    by (simp add: concat_df_new_rows)
  have e: "columns ?old = columns new_entry_df \<and> distinct (columns ?old) \<and>
       (\<forall>r \<in> set (rows ?old @ rows new_entry_df). length r = length (columns ?old))
         \<longrightarrow> ?new = \<lparr>columns = columns ?old, rows = rows ?old @ rows new_entry_df\<rparr>"
    using concat_df_same_columns [of ?old new_entry_df] by blast
  have g: "filter (\<lambda>p. fst p \<noteq> ''user_submissions'') ?sheets'
        = filter (\<lambda>p. fst p \<noteq> ''user_submissions'') (read_excel file)"
    by (rule filter_dict_set)
  have h: "map fst ?sheets' =
        (if ''user_submissions'' \<in> fst ` set file then map fst file
         else map fst file @ [''user_submissions''])"
    by (simp add: keys_dict_set names names')
  from f' a b c d e g h show ?thesis
    by (intro exI [of _ ?old] exI [of _ ?new]) blast
qed

text \<open>
  C9, evaluated where it fails. A user named NA submits: the call succeeds and the sheet
  \<open>user_submissions\<close> ends with the row of NA. At the next submission, by Ann, the call
  succeeds again; the sheet has one row more, and the earlier row has lost its name: the
  read took the text NA for a missing value and the write left the cell empty.
\<close>

theorem recorded_name_is_blanked:
  "update_user_submissions Io_ok example_workbook NA_entry = (True, NA_workbook, [])
   \<and> map_option rows (map_of NA_workbook ''user_submissions'')
     = Some [[Some ''Bob'', Some ''A'', Some ''A'', Some ''A'', Some ''A'', Some ''A'',
              Some ''Draco Malfoy''],
             [Some ''NA'', Some ''C'', Some ''A'', Some ''A'', Some ''A'', Some ''A'',
              Some ''Hermione Granger'']]
   \<and> fst (update_user_submissions Io_ok NA_workbook example_entry) = True
   \<and> map_option rows
        (map_of (fst (snd (update_user_submissions Io_ok NA_workbook example_entry)))
           ''user_submissions'')
     = Some [[Some ''Bob'', Some ''A'', Some ''A'', Some ''A'', Some ''A'', Some ''A'',
              Some ''Draco Malfoy''],
             [None, Some ''C'', Some ''A'', Some ''A'', Some ''A'', Some ''A'',
              Some ''Hermione Granger''],
             [Some ''Ann'', Some ''B'', Some ''B'', Some ''B'', Some ''B'', Some ''B'',
              Some ''Neville Longbottom'']]"
proof -
  have a: "update_user_submissions Io_ok example_workbook NA_entry = (True, NA_workbook, [])"
    by code_simp
  have b: "map_option rows (map_of NA_workbook ''user_submissions'')
     = Some [[Some ''Bob'', Some ''A'', Some ''A'', Some ''A'', Some ''A'', Some ''A'',
              Some ''Draco Malfoy''],
             [Some ''NA'', Some ''C'', Some ''A'', Some ''A'', Some ''A'', Some ''A'',
              Some ''Hermione Granger'']]"
    by code_simp
  have c: "fst (update_user_submissions Io_ok NA_workbook example_entry) = True"
    by code_simp
  have d: "map_option rows
        (map_of (fst (snd (update_user_submissions Io_ok NA_workbook example_entry)))
           ''user_submissions'')
     = Some [[Some ''Bob'', Some ''A'', Some ''A'', Some ''A'', Some ''A'', Some ''A'',
              Some ''Draco Malfoy''],
             [None, Some ''C'', Some ''A'', Some ''A'', Some ''A'', Some ''A'',
              Some ''Hermione Granger''],
             [Some ''Ann'', Some ''B'', Some ''B'', Some ''B'', Some ''B'', Some ''B'',
              Some ''Neville Longbottom'']]"
    by code_simp
  from a b c d show ?thesis by blast
qed

subsection \<open>The inference pipeline is a function of the artifacts and the codes\<close>

lemma submit_Rerun:
  assumes "submit res io name answers c (s, file) = ((s', file'), out, Rerun)"
  shows "\<exists>encoded character.
      encode_loop (label_encoders res) (zip feature_cols answers) [] = Inr encoded \<and>
      encode_predict_decode res answers = Some character \<and>
      s' = s\<lparr>quiz_submitted := True, predicted_character := Some character,
              user_name_display := Some name\<rparr> \<and>
      out = [Predict encoded] \<and> c \<and> length answers = 5 \<and>
      update_user_submissions io file
        \<lparr>columns = [''Name''] @ feature_cols @ [''Predicted_Character''],
         rows = [map Some ([name] @ answers @ [character])]\<rparr> = (True, file', [])"
proof -
  have shown: "fst (update_user_submissions io file df) \<Longrightarrow>
      snd (snd (update_user_submissions io file df)) = []" for df
    by (auto simp: update_user_submissions_def Let_def split: io.splits option.splits)
  show ?thesis
    using assms
    by (auto simp: submit_def encode_predict_decode_def Let_def split_beta shown feature_cols_def
               prod_eq_iff
             split: if_splits sum.splits)
qed

text \<open>
  C8. Two submissions with the same artifacts and the same answer codes that reach the
  result (the run ends with \<open>st.rerun()\<close>) store the same predicted character, the one that
  encoding, predicting and decoding the codes gives, and call the classifier with the same
  encoded row, whatever the user names, the sessions and the workbook files are.
\<close>

theorem pipeline_deterministic:
  assumes "submit res io1 name1 answers c1 (s1, file1) = ((s1', file1'), out1, Rerun)"
      and "submit res io2 name2 answers c2 (s2, file2) = ((s2', file2'), out2, Rerun)"
  shows "predicted_character s1' = predicted_character s2' \<and>
     predicted_character s1' = encode_predict_decode res answers \<and>
     predicted_character s1' \<noteq> None \<and> out1 = out2"
  using submit_Rerun [OF assms(1)] submit_Rerun [OF assms(2)] by auto

theorem pipeline_deterministic_witness:
  "snd (snd (submit example_resources Io_ok ''Ann'' [''A'', ''B'', ''A'', ''C'', ''D''] True
               (named_session, example_workbook))) = Rerun
   \<and> snd (snd (submit example_resources Io_ok ''Bob'' [''A'', ''B'', ''A'', ''C'', ''D''] True
               (fresh_session\<lparr>predicted_character := Some ''Ron Weasley''\<rparr>, []))) = Rerun
   \<and> predicted_character (fst (fst (submit example_resources Io_ok ''Ann''
         [''A'', ''B'', ''A'', ''C'', ''D''] True (named_session, example_workbook))))
       = Some ''Hermione Granger''
   \<and> predicted_character (fst (fst (submit example_resources Io_ok ''Bob''
         [''A'', ''B'', ''A'', ''C'', ''D''] True
         (fresh_session\<lparr>predicted_character := Some ''Ron Weasley''\<rparr>, []))))
       = Some ''Hermione Granger''"
proof -
  let ?answers = "[''A'', ''B'', ''A'', ''C'', ''D'']"
  let ?U1 = "submit example_resources Io_ok ''Ann'' ?answers True
               (named_session, example_workbook)"
  let ?U2 = "submit example_resources Io_ok ''Bob'' ?answers True
               (fresh_session\<lparr>predicted_character := Some ''Ron Weasley''\<rparr>, [])"
  have c1: "snd (snd ?U1) = Rerun" by code_simp
  have c2: "snd (snd ?U2) = Rerun" by code_simp
  have r1: "?U1 = ((fst (fst ?U1), snd (fst ?U1)), fst (snd ?U1), Rerun)"
    using c1 by (metis prod.collapse)
  have r2: "?U2 = ((fst (fst ?U2), snd (fst ?U2)), fst (snd ?U2), Rerun)"
    using c2 by (metis prod.collapse)
  have p1: "predicted_character (fst (fst ?U1)) = Some ''Hermione Granger''" by code_simp
  from pipeline_deterministic [OF r1 r2] have
    "predicted_character (fst (fst ?U1)) = predicted_character (fst (fst ?U2))" by blast
  with c1 c2 p1 show ?thesis by simp
qed

subsection \<open>Recording failures\<close>

lemma update_user_submissions_False:
  assumes "fst (update_user_submissions io file df) = False"
  shows "\<exists>msg file'. update_user_submissions io file df =
     (False, file', [Error (''Failed to save your submission: '' @ msg @ ''. Please try again.'')])"
  using assms
  by (auto simp: update_user_submissions_def Let_def split: io.splits option.splits)

text \<open>
  C2, as the code has it. When the pipeline computes a character for a five-answer
  submission and recording it fails, the submit handler calls the classifier and then shows
  two errors, the recorder's and its own; the session stays as it was, so it is not marked
  as submitted and the character is neither stored nor, the result view being reserved to
  submitted sessions, shown; the run completes.
\<close>

theorem recording_failure_reported:
  assumes predicted: "encode_predict_decode res answers = Some character"
      and five: "length answers = 5"
      and failed: "fst (update_user_submissions io file
          \<lparr>columns = [''Name''] @ feature_cols @ [''Predicted_Character''],
           rows = [map Some ([name] @ answers @ [character])]\<rparr>) = False"
  shows "\<exists>encoded msg file'.
      submit res io name answers True (s, file) =
        ((s, file'),
         [Predict encoded,
          Error (''Failed to save your submission: '' @ msg @ ''. Please try again.''),
          Error ''Failed to save your quiz results. Please contact support.''],
         Completed)"
proof -
  from predicted obtain encoded code where
    e: "encode_loop (label_encoders res) (zip feature_cols answers) [] = Inr encoded"
      "model res encoded = Inr code" "inverse_transform (target_le res) code = Inr character"
    by (auto simp: encode_predict_decode_def split: sum.splits)
  from update_user_submissions_False [OF failed] obtain msg file' where
    u: "update_user_submissions io file
          \<lparr>columns = [''Name''] @ feature_cols @ [''Predicted_Character''],
           rows = [map Some ([name] @ answers @ [character])]\<rparr> =
     (False, file', [Error (''Failed to save your submission: '' @ msg @ ''. Please try again.'')])"
    by blast
  have "submit res io name answers True (s, file) =
        ((s, file'),
         [Predict encoded,
          Error (''Failed to save your submission: '' @ msg @ ''. Please try again.''),
          Error ''Failed to save your quiz results. Please contact support.''],
         Completed)"
    using e five u by (simp add: submit_def Let_def feature_cols_def)
  then show ?thesis by blast
qed

theorem recording_failure_reported_witness:
  "encode_predict_decode example_resources [''B'', ''B'', ''B'', ''B'', ''B'']
     = Some ''Neville Longbottom''
   \<and> (\<exists>encoded msg file'.
        submit example_resources (Write_fails ''Permission denied'' example_workbook) ''Ann''
          [''B'', ''B'', ''B'', ''B'', ''B''] True (named_session, example_workbook) =
        ((named_session, file'),
         [Predict encoded,
          Error (''Failed to save your submission: '' @ msg @ ''. Please try again.''),
          Error ''Failed to save your quiz results. Please contact support.''],
         Completed))"
proof -
  let ?answers = "[''B'', ''B'', ''B'', ''B'', ''B'']"
  have predicted: "encode_predict_decode example_resources ?answers = Some ''Neville Longbottom''"
    by code_simp
  have five: "length ?answers = 5" by simp
  have failed: "fst (update_user_submissions (Write_fails ''Permission denied'' example_workbook)
          (example_workbook)
          \<lparr>columns = [''Name''] @ feature_cols @ [''Predicted_Character''],
           rows = [map Some ([''Ann''] @ ?answers @ [''Neville Longbottom''])]\<rparr>) = False"
    by (simp add: update_user_submissions_def Let_def)
  from recording_failure_reported [OF predicted five failed] predicted
  show ?thesis by blast
qed

text \<open>
  C2 as stated fails: in this run the pipeline computes Neville Longbottom, writing the
  workbook fails, and no emitted element shows the character; the session remains
  unsubmitted and holds no predicted character.
\<close>

theorem prediction_shown_despite_recording_failure_counterexample:
  "encode_predict_decode example_resources [''B'', ''B'', ''B'', ''B'', ''B'']
     = Some ''Neville Longbottom''
   \<and> snd (run_script (\<lambda>seed. rev) example_questions example_resources
         (example_env (\<lambda>_. Some 1) (Write_fails ''Permission denied'' example_workbook))
         (named_session, example_workbook, zero_rng))
     = ([Radio 0 [''--- Please Select ---'', ''A. 5b'', ''B. 5c'', ''C. 5d'', ''D. 5e'', ''E. 5a''] 0,
         Radio 1 [''--- Please Select ---'', ''A. 4b'', ''B. 4c'', ''C. 4d'', ''D. 4e'', ''E. 4a''] 0,
         Radio 2 [''--- Please Select ---'', ''A. 3b'', ''B. 3c'', ''C. 3d'', ''D. 3e'', ''E. 3a''] 0,
         Radio 3 [''--- Please Select ---'', ''A. 2b'', ''B. 2c'', ''C. 2d'', ''D. 2e'', ''E. 2a''] 0,
         Radio 4 [''--- Please Select ---'', ''A. 1b'', ''B. 1c'', ''C. 1d'', ''D. 1e'', ''E. 1a''] 0,
         Predict [(''A1'', 1), (''A2'', 1), (''A3'', 1), (''A4'', 1), (''A5'', 1)],
         Error ''Failed to save your submission: Permission denied. Please try again.'',
         Error ''Failed to save your quiz results. Please contact support.''],
        Completed)
   \<and> \<not> shows_character ''Neville Longbottom''
         (fst (snd (run_script (\<lambda>seed. rev) example_questions example_resources
            (example_env (\<lambda>_. Some 1) (Write_fails ''Permission denied'' example_workbook))
            (named_session, example_workbook, zero_rng))))
   \<and> \<not> quiz_submitted (fst (fst (run_script (\<lambda>seed. rev) example_questions example_resources
            (example_env (\<lambda>_. Some 1) (Write_fails ''Permission denied'' example_workbook))
            (named_session, example_workbook, zero_rng))))
   \<and> predicted_character (fst (fst (run_script (\<lambda>seed. rev) example_questions
            example_resources (example_env (\<lambda>_. Some 1) (Write_fails ''Permission denied'' example_workbook))
            (named_session, example_workbook, zero_rng)))) = None"
proof -
  let ?R = "run_script (\<lambda>seed. rev) example_questions example_resources
         (example_env (\<lambda>_. Some 1) (Write_fails ''Permission denied'' example_workbook))
         (named_session, example_workbook, zero_rng)"
  have predicted: "encode_predict_decode example_resources [''B'', ''B'', ''B'', ''B'', ''B'']
     = Some ''Neville Longbottom''"
    by code_simp
  have out: "snd ?R
     = ([Radio 0 [''--- Please Select ---'', ''A. 5b'', ''B. 5c'', ''C. 5d'', ''D. 5e'', ''E. 5a''] 0,
         Radio 1 [''--- Please Select ---'', ''A. 4b'', ''B. 4c'', ''C. 4d'', ''D. 4e'', ''E. 4a''] 0,
         Radio 2 [''--- Please Select ---'', ''A. 3b'', ''B. 3c'', ''C. 3d'', ''D. 3e'', ''E. 3a''] 0,
         Radio 3 [''--- Please Select ---'', ''A. 2b'', ''B. 2c'', ''C. 2d'', ''D. 2e'', ''E. 2a''] 0,
         Radio 4 [''--- Please Select ---'', ''A. 1b'', ''B. 1c'', ''C. 1d'', ''D. 1e'', ''E. 1a''] 0,
         Predict [(''A1'', 1), (''A2'', 1), (''A3'', 1), (''A4'', 1), (''A5'', 1)],
         Error ''Failed to save your submission: Permission denied. Please try again.'',
         Error ''Failed to save your quiz results. Please contact support.''],
        Completed)"
    by code_simp
  have hidden: "\<not> shows_character ''Neville Longbottom'' (fst (snd ?R))"
    unfolding out by code_simp
  have unsubmitted: "\<not> quiz_submitted (fst (fst ?R))" by code_simp
  have unstored: "predicted_character (fst (fst ?R)) = None" by code_simp
  from predicted out hidden unsubmitted unstored show ?thesis by blast
qed

subsection \<open>Reset\<close>

lemma current_selection_index_placeholder:
  "current_selection_index (please_select # opts) please_select = 0"
  by (simp add: current_selection_index_def)

lemma render_loop_fresh:
  assumes "\<forall>j\<ge>i. m j = None \<and> quiz_selections_display s j = None"
      and "render_loop pk i qs ((m, s, g), ans, c, out) = ((m', s', g'), ans', c', out')"
  shows "out' = out @ fresh_widgets i qs g"
  using assms
proof (induction qs arbitrary: i m s g ans c out)
  case Nil
  then show ?case by (simp add: fresh_widgets_def)
next
  case (Cons row qs)
  obtain m1 s1 g1 a1 w1 where q: "render_question pk i row (m, s, g) = ((m1, s1, g1), a1, w1)"
    by (metis prod.collapse)
  from Cons.prems(2) have l:
    "render_loop pk (Suc i) qs ((m1, s1, g1), ans @ [a1], (if a1 = INVALID then False else c), out @ [w1])
       = ((m', s', g'), ans', c', out')"
    by (simp add: q)
  from Cons.prems(1) have here: "m i = None" "quiz_selections_display s i = None" by simp_all
  let ?ps = "fst (shuffle (original_options row) g)"
  from render_question_parts [OF q] here have step:
    "m1 = m(i \<mapsto> ?ps)" "g1 = snd (shuffle (original_options row) g)"
    "w1 = Radio i (please_select # display_strings 0 ?ps) 0"
    "\<exists>sel. quiz_selections_display s1 = (quiz_selections_display s)(i \<mapsto> sel)"
    by (auto simp: current_selection_index_placeholder)
  from step(1,4) Cons.prems(1) have
    "\<forall>j\<ge>Suc i. m1 j = None \<and> quiz_selections_display s1 j = None" by auto
  from Cons.IH [OF this l] have "out' = (out @ [w1]) @ fresh_widgets (Suc i) qs g1" .
  with step(2,3) show ?case
    by (simp add: fresh_widgets_def split_beta)
qed

lemma length_fresh_widgets [simp]: "length (fresh_widgets i qs g) = length qs"
proof -
  have "length (fresh_orders qs g) = length qs"
    by (induction qs arbitrary: g) (auto simp: split_beta)
  then show ?thesis by (simp add: fresh_widgets_def)
qed

text \<open>
  C3, as the code has it. After the reset, the next run of the script shows the prompt for
  the name and nothing else: the session is not submitted, has no name and no answer
  selection, holds a question order taken from the next draw of the generator and an empty
  cache of option orders; the predicted character is still stored but not shown. At a later
  run, once a name is typed, the questions are shown in that new order, each with nothing
  selected and with an option order that is drawn from the generator at that moment.
\<close>

theorem reset_then_fresh_shuffle:
  assumes first: "run_script sample orig res env (reset_quiz_state s, file, g)
                    = ((s1, file1, g1), out1, ctl1)"
      and named: "name \<noteq> []"
      and later: "run_script sample orig res env' (s1\<lparr>user_name_input := name\<rparr>, file', g')
                    = ((s2, file2, g2), out2, ctl2)"
  shows "out1 = [Info ''Please enter your name to start the quiz!''] \<and> ctl1 = Completed \<and>
     file1 = file \<and> g1 = (\<lambda>k. g (Suc k)) \<and>
     \<not> quiz_submitted s1 \<and> user_name_input s1 = [] \<and>
     quiz_selections_display s1 = Map.empty \<and>
     shuffled_questions_df s1 = Some (sample (g 0 mod 10001) orig) \<and>
     shuffled_options_map s1 = Some Map.empty \<and>
     predicted_character s1 = predicted_character s \<and>
     shuffled_questions_df s2 = Some (sample (g 0 mod 10001) orig) \<and>
     take (length (sample (g 0 mod 10001) orig)) out2
       = fresh_widgets 0 (sample (g 0 mod 10001) orig) g'"
proof -
  let ?q = "sample (g 0 mod 10001) orig"
  let ?s1 = "(reset_quiz_state s)\<lparr>shuffled_questions_df := Some ?q,
                                   shuffled_options_map := Some Map.empty\<rparr>"
  have sh: "shuffling_logic sample orig (reset_quiz_state s, g)
              = Inr (?q, Map.empty, ?s1, (\<lambda>k. g (Suc k)))"
    by (simp add: reset_quiz_state_def shuffling_logic_def randint_def randbelow_def)
  have "quiz_submitted ?s1 \<or> user_name_input ?s1 = []"
    by (simp add: reset_quiz_state_def)
  from run_script_no_form [OF first sh this] have
    one: "s1 = ?s1" "file1 = file" "g1 = (\<lambda>k. g (Suc k))" by simp_all
  from first run_script_Inr [OF sh, of res env "file"] have
    out1: "out1 = [Info ''Please enter your name to start the quiz!'']" "ctl1 = Completed"
    by (simp_all add: reset_quiz_state_def quiz_form_unnamed)
  let ?t = "s1\<lparr>user_name_input := name\<rparr>"
  have t: "shuffled_questions_df ?t = Some ?q" "shuffled_options_map ?t = Some Map.empty"
    "\<not> quiz_submitted ?t" "user_name_input ?t \<noteq> []" "quiz_selections_display ?t = Map.empty"
    using one(1) named by (simp_all add: reset_quiz_state_def)
  from shuffling_logic_kept [OF t(1), of sample orig g'] t(2) have
    sh2: "shuffling_logic sample orig (?t, g') = Inr (?q, Map.empty, ?t, g')" by simp
  obtain m2 t2 h2 ans c ws where
    loop: "render_loop (pick env') 0 ?q ((Map.empty, ?t, g'), [], True, []) = ((m2, t2, h2), ans, c, ws)"
    by (metis prod.collapse)
  from run_script_form [OF later sh2 t(3,4) loop] obtain out3 where
    fin: "out2 = ws @ out3" "shuffled_questions_df s2 = shuffled_questions_df ?t" by blast
  have "\<forall>j\<ge>0. (Map.empty :: nat \<rightharpoonup> (string \<times> string) list) j = None
            \<and> quiz_selections_display ?t j = None"
    using t(5) by simp
  from render_loop_fresh [OF this loop] have ws: "ws = fresh_widgets 0 ?q g'" by simp
  with fin(1) have "take (length ?q) out2 = fresh_widgets 0 ?q g'" by simp
  with one out1 fin(2) t(1) show ?thesis
    by (simp add: reset_quiz_state_def)
qed

theorem reset_then_fresh_shuffle_witness:
  "quiz_submitted submitted_session
   \<and> predicted_character submitted_session = Some ''Neville Longbottom''
   \<and> shuffled_questions_df submitted_session = Some (rev example_questions)
   \<and> snd (run_script example_sample example_questions example_resources
         (example_env (\<lambda>_. None) Io_ok)
         (reset_quiz_state submitted_session, example_workbook, (\<lambda>_. 1)))
     = ([Info ''Please enter your name to start the quiz!''], Completed)
   \<and> shuffled_questions_df (fst (fst (run_script example_sample example_questions
         example_resources (example_env (\<lambda>_. None) Io_ok)
         (reset_quiz_state submitted_session, example_workbook, (\<lambda>_. 1)))))
     = Some example_questions
   \<and> predicted_character (fst (fst (run_script example_sample example_questions
         example_resources (example_env (\<lambda>_. None) Io_ok)
         (reset_quiz_state submitted_session, example_workbook, (\<lambda>_. 1)))))
     = Some ''Neville Longbottom''
   \<and> take 5 (fst (snd (run_script example_sample example_questions example_resources
         (example_env (\<lambda>_. None) Io_ok)
         ((fst (fst (run_script example_sample example_questions example_resources
              (example_env (\<lambda>_. None) Io_ok)
              (reset_quiz_state submitted_session, example_workbook, (\<lambda>_. 1)))))
            \<lparr>user_name_input := ''Cho''\<rparr>,
          example_workbook, Suc))))
     = [Radio 0 [''--- Please Select ---'', ''A. 1e'', ''B. 1d'', ''C. 1a'', ''D. 1c'', ''E. 1b''] 0,
        Radio 1 [''--- Please Select ---'', ''A. 2d'', ''B. 2e'', ''C. 2b'', ''D. 2c'', ''E. 2a''] 0,
        Radio 2 [''--- Please Select ---'', ''A. 3b'', ''B. 3a'', ''C. 3d'', ''D. 3c'', ''E. 3e''] 0,
        Radio 3 [''--- Please Select ---'', ''A. 4b'', ''B. 4e'', ''C. 4a'', ''D. 4c'', ''E. 4d''] 0,
        Radio 4 [''--- Please Select ---'', ''A. 5d'', ''B. 5a'', ''C. 5b'', ''D. 5e'', ''E. 5c''] 0]"
proof -
  let ?env = "example_env (\<lambda>_. None) Io_ok"
  let ?R1 = "run_script example_sample example_questions example_resources ?env
         (reset_quiz_state submitted_session, example_workbook, (\<lambda>_. 1))"
  let ?R2 = "run_script example_sample example_questions example_resources ?env
         ((fst (fst ?R1))\<lparr>user_name_input := ''Cho''\<rparr>, example_workbook, Suc)"
  have before: "quiz_submitted submitted_session
     \<and> predicted_character submitted_session = Some ''Neville Longbottom''
     \<and> shuffled_questions_df submitted_session = Some (rev example_questions)"
    by code_simp
  have first: "?R1 = ((fst (fst ?R1), fst (snd (fst ?R1)), snd (snd (fst ?R1))),
                      fst (snd ?R1), snd (snd ?R1))"
    by simp
  have named: "''Cho'' \<noteq> []" by simp
  have later: "?R2 = ((fst (fst ?R2), fst (snd (fst ?R2)), snd (snd (fst ?R2))),
                      fst (snd ?R2), snd (snd ?R2))"
    by simp
  have q: "example_sample ((\<lambda>_. 1) 0 mod 10001) example_questions = example_questions"
    by (simp add: example_sample_def)
  have five: "length example_questions = 5" by (simp add: example_questions_def)
  have widgets: "fresh_widgets 0 example_questions Suc
     = [Radio 0 [''--- Please Select ---'', ''A. 1e'', ''B. 1d'', ''C. 1a'', ''D. 1c'', ''E. 1b''] 0,
        Radio 1 [''--- Please Select ---'', ''A. 2d'', ''B. 2e'', ''C. 2b'', ''D. 2c'', ''E. 2a''] 0,
        Radio 2 [''--- Please Select ---'', ''A. 3b'', ''B. 3a'', ''C. 3d'', ''D. 3c'', ''E. 3e''] 0,
        Radio 3 [''--- Please Select ---'', ''A. 4b'', ''B. 4e'', ''C. 4a'', ''D. 4c'', ''E. 4d''] 0,
        Radio 4 [''--- Please Select ---'', ''A. 5d'', ''B. 5a'', ''C. 5b'', ''D. 5e'', ''E. 5c''] 0]"
    by code_simp
  from reset_then_fresh_shuffle [OF first named later] have
    "fst (snd ?R1) = [Info ''Please enter your name to start the quiz!'']"
    "snd (snd ?R1) = Completed"
    "shuffled_questions_df (fst (fst ?R1))
       = Some (example_sample ((\<lambda>_. 1) 0 mod 10001) example_questions)"
    "predicted_character (fst (fst ?R1)) = predicted_character submitted_session"
    "take (length (example_sample ((\<lambda>_. 1) 0 mod 10001) example_questions)) (fst (snd ?R2))
       = fresh_widgets 0 (example_sample ((\<lambda>_. 1) 0 mod 10001) example_questions) Suc"
    by blast+
  with before q five widgets show ?thesis
    by (simp add: prod_eq_iff)
qed

text \<open>
  C3 as stated fails: after a submission that predicted Neville Longbottom, the reset
  session still holds that prediction, and still holds the mapping of display strings to
  codes that the previous option shuffle of the first question produced.
\<close>

theorem reset_discards_prediction_counterexample:
  "quiz_submitted (fst (fst (run_script (\<lambda>seed. rev) example_questions example_resources
       (example_env (\<lambda>_. Some 1) Io_ok) (named_session, example_workbook, zero_rng))))
   \<and> predicted_character (reset_quiz_state (fst (fst (run_script (\<lambda>seed. rev) example_questions
       example_resources (example_env (\<lambda>_. Some 1) Io_ok)
       (named_session, example_workbook, zero_rng)))))
     = Some ''Neville Longbottom''
   \<and> (case q_mapping (reset_quiz_state (fst (fst (run_script (\<lambda>seed. rev) example_questions
       example_resources (example_env (\<lambda>_. Some 1) Io_ok)
       (named_session, example_workbook, zero_rng))))) 0 of
         None \<Rightarrow> False
       | Some mapping \<Rightarrow> mapping ''A. 5b'' = Some ''B'')"
proof -
  let ?R = "run_script (\<lambda>seed. rev) example_questions example_resources
       (example_env (\<lambda>_. Some 1) Io_ok) (named_session, example_workbook, zero_rng)"
  have a: "quiz_submitted (fst (fst ?R))" by code_simp
  have b: "predicted_character (reset_quiz_state (fst (fst ?R))) = Some ''Neville Longbottom''"
    by code_simp
  have c: "case q_mapping (reset_quiz_state (fst (fst ?R))) 0 of
         None \<Rightarrow> False
       | Some mapping \<Rightarrow> mapping ''A. 5b'' = Some ''B''"
    by code_simp
  from a b c show ?thesis by blast
qed

subsection \<open>Feature columns and question order\<close>

text \<open>
  C1, evaluated where it fails. The questions are shown in the order Q5, Q4, Q3, Q2, Q1 and
  the user answers Q5 with its option B, Q4 with C, Q3 with D, Q2 with E and Q1 with A. In
  the original order of the questions the answers are A, E, D, C, B, for which the pipeline
  gives Neville Longbottom. The script encodes and records them in display order: the
  classifier receives A1 = B, A2 = C, A3 = D, A4 = E, A5 = A, and the recorded row holds the
  same codes and the character Draco Malfoy.
\<close>

theorem answers_paired_by_display_order:
  "map (quiz_selections_display (fst (fst (run_script (\<lambda>seed. rev) example_questions
          example_resources (example_env (\<lambda>i. Some (Suc i)) Io_ok)
          (named_session, example_workbook, zero_rng))))) [0, 1, 2, 3, 4]
     = [Some ''A. 5b'', Some ''B. 4c'', Some ''C. 3d'', Some ''D. 2e'', Some ''E. 1a'']
   \<and> answers_in_original_order example_questions (rev example_questions)
         [''B'', ''C'', ''D'', ''E'', ''A'']
     = [Some ''A'', Some ''E'', Some ''D'', Some ''C'', Some ''B'']
   \<and> fst (snd (run_script (\<lambda>seed. rev) example_questions example_resources
          (example_env (\<lambda>i. Some (Suc i)) Io_ok)
          (named_session, example_workbook, zero_rng))) ! 5
     = Predict [(''A1'', 1), (''A2'', 2), (''A3'', 3), (''A4'', 4), (''A5'', 0)]
   \<and> map_option (\<lambda>df. last (rows df))
         (map_of (fst (snd (fst (run_script (\<lambda>seed. rev) example_questions
            example_resources (example_env (\<lambda>i. Some (Suc i)) Io_ok)
            (named_session, example_workbook, zero_rng))))) ''user_submissions'')
     = Some [Some ''Ann'', Some ''B'', Some ''C'', Some ''D'', Some ''E'', Some ''A'',
             Some ''Draco Malfoy'']
   \<and> encode_predict_decode example_resources [''A'', ''E'', ''D'', ''C'', ''B'']
     = Some ''Neville Longbottom''"
proof -
  let ?R = "run_script (\<lambda>seed. rev) example_questions example_resources
          (example_env (\<lambda>i. Some (Suc i)) Io_ok)
          (named_session, example_workbook, zero_rng)"
  have a: "map (quiz_selections_display (fst (fst ?R))) [0, 1, 2, 3, 4]
     = [Some ''A. 5b'', Some ''B. 4c'', Some ''C. 3d'', Some ''D. 2e'', Some ''E. 1a'']"
    by code_simp
  have b: "answers_in_original_order example_questions (rev example_questions)
         [''B'', ''C'', ''D'', ''E'', ''A'']
     = [Some ''A'', Some ''E'', Some ''D'', Some ''C'', Some ''B'']"
    by code_simp
  have c: "fst (snd ?R) ! 5
     = Predict [(''A1'', 1), (''A2'', 2), (''A3'', 3), (''A4'', 4), (''A5'', 0)]"
    by code_simp
  have d: "map_option (\<lambda>df. last (rows df))
         (map_of (fst (snd (fst ?R))) ''user_submissions'')
     = Some [Some ''Ann'', Some ''B'', Some ''C'', Some ''D'', Some ''E'', Some ''A'',
             Some ''Draco Malfoy'']"
    by code_simp
  have e: "encode_predict_decode example_resources [''A'', ''E'', ''D'', ''C'', ''B'']
     = Some ''Neville Longbottom''"
    by code_simp
  from a b c d e show ?thesis by blast
qed

end
